theory Spec2Isabelle
  imports Main "HOL-Library.Word"
begin

section \<open>Tokens and the token source\<close>

text \<open>
  The parser of \<^verbatim>\<open>parser.cpp\<close> pulls tokens from a lexer whose classes
  (\<^verbatim>\<open>Token\<close>, \<^verbatim>\<open>Location\<close>, \<^verbatim>\<open>Lexer\<close>) are declared in
  \<^verbatim>\<open>lexer.h\<close>. Their shape is taken from the data model of the specification:
  a token is a kind, a source location and a payload; the token source has a current
  token and an \<^verbatim>\<open>advance\<close> operation, and signals its end with a token kind
  of its own.
\<close>

datatype Token_Kind =
    FUNC | RETURN | WHILE | IF | ELSE | LET
  | LPAREN | RPAREN | LBRACE | RBRACE | COLON | SEMI | EQUAL | EQUALS | COMMA
  | PLUS | SUB | MUL
  | INT_kind | STRING | IDENT
  | END

record Location =
  Name :: string
  Line :: int
  Column :: int

record Token =
  GetKind :: Token_Kind
  GetLocation :: Location
  StringValue :: string
  IntValue :: "64 word"

text \<open>
  Everything that can end a call other than a returned value. \<open>ParserError\<close> is the
  C++ exception of that name; it holds the text that \<^verbatim>\<open>what()\<close> returns.
  \<open>PreconditionViolation\<close> is a payload read on a token of another kind.
  \<open>OutOfFuel\<close> belongs to the model alone: the recursive descent is defined with a
  bound on its call depth, and this value says that the bound was reached.
\<close>

datatype error = ParserError string | PreconditionViolation | OutOfFuel

text \<open>
  Modelled from the spec: \<^verbatim>\<open>Token::GetIdent\<close>, \<^verbatim>\<open>Token::GetString\<close> and
  \<^verbatim>\<open>Token::GetInt\<close> of \<^verbatim>\<open>lexer.h\<close>. The data model says that payload access
  ``is only valid for the matching kind and fails otherwise (precondition violation,
  not a recoverable error)''.
\<close>

definition GetIdent :: "Token \<Rightarrow> error + string" where
  "GetIdent tk = (if GetKind tk = IDENT then Inr (StringValue tk) else Inl PreconditionViolation)"

definition GetString :: "Token \<Rightarrow> error + string" where
  "GetString tk = (if GetKind tk = STRING then Inr (StringValue tk) else Inl PreconditionViolation)"

definition GetInt :: "Token \<Rightarrow> error + 64 word" where
  "GetInt tk = (if GetKind tk = INT_kind then Inr (IntValue tk) else Inl PreconditionViolation)"

text \<open>
  Modelled from the spec: the token source (\<^verbatim>\<open>Lexer\<close> of \<^verbatim>\<open>lexer.h\<close>). It holds
  the tokens not yet consumed, the current one first, and the location the end of the
  input has. Past the last token the current token is the end-of-stream token, and
  advancing stays there (``end-of-stream is a distinguishable token kind, not an
  exception'').
\<close>

record Lexer =
  rest :: "Token list"
  eof :: Location

definition EndToken :: "Location \<Rightarrow> Token" where
  "EndToken l = \<lparr>GetKind = END, GetLocation = l, StringValue = [], IntValue = 0\<rparr>"

definition Current :: "Lexer \<Rightarrow> Token" where
  "Current lx = (case rest lx of [] \<Rightarrow> EndToken (eof lx) | tk # _ \<Rightarrow> tk)"

definition Next :: "Lexer \<Rightarrow> Lexer" where
  "Next lx = lx\<lparr>rest := (case rest lx of [] \<Rightarrow> [] | _ # tks \<Rightarrow> tks)\<rparr>"

text \<open>
  The stream inserters for tokens and token kinds (\<^verbatim>\<open>operator<<\<close>) are defined
  with the lexer, so the parser takes them as a parameter.
\<close>

record Printers =
  showToken :: "Token \<Rightarrow> string"
  showKind :: "Token_Kind \<Rightarrow> string"

section \<open>The abstract syntax tree\<close>

datatype BinaryExpr_Kind = BinADD | BinSUB | BinMUL | BinEQUALS

datatype Expr =
    RefExpr string
  | IntExpr "64 word"
  | CallExpr Expr "Expr list"
  | BinaryExpr BinaryExpr_Kind Expr Expr

datatype Stmt =
    ExprStmt Expr
  | ReturnStmt Expr
  | WhileStmt Expr Stmt
  | IfStmt Expr Stmt "Stmt option"
  | LetStmt "string \<times> string" Expr
  | BlockStmt "Stmt list"

datatype TopLevelStmt =
    ProtoDecl string "(string \<times> string) list" string string
  | FuncDecl string "(string \<times> string) list" string Stmt
  | TopStmt Stmt

datatype Module = Module "TopLevelStmt list"

section \<open>Diagnostics\<close>

text \<open>Decimal output of an integer, as \<^verbatim>\<open>operator<<\<close> of a stream prints it.\<close>

fun dec_nat :: "nat \<Rightarrow> string" where
  "dec_nat n =
     (if n < 10 then [''0123456789'' ! n]
      else dec_nat (n div 10) @ [''0123456789'' ! (n mod 10)])"

declare dec_nat.simps [simp del]

definition dec_int :: "int \<Rightarrow> string" where
  "dec_int i = (if i < 0 then ''-'' @ dec_nat (nat (- i)) else dec_nat (nat i))"

definition FormatMessage :: "Location \<Rightarrow> string \<Rightarrow> string" where
  "FormatMessage loc msg =
     ''['' @ Name loc @ '':'' @ dec_int (Line loc) @ '':'' @ dec_int (Column loc) @ ''] '' @ msg"

section \<open>The parser\<close>

text \<open>
  A parsing function takes the lexer and returns either an error or its value with the
  lexer after it. \<open>bind\<close> runs the next step on a value and passes an error on, as a
  C++ exception leaves every enclosing call.
\<close>

type_synonym 'a result = "error + ('a \<times> Lexer)"

definition bind :: "'a result \<Rightarrow> ('a \<Rightarrow> Lexer \<Rightarrow> 'b result) \<Rightarrow> 'b result" where
  "bind m f = (case m of Inl e \<Rightarrow> Inl e | Inr (x, lx) \<Rightarrow> f x lx)"

definition lift :: "error + 'a \<Rightarrow> Lexer \<Rightarrow> 'a result" where
  "lift r lx = (case r of Inl e \<Rightarrow> Inl e | Inr x \<Rightarrow> Inr (x, lx))"

definition Error :: "Location \<Rightarrow> string \<Rightarrow> 'a result" where
  "Error loc msg = Inl (ParserError (FormatMessage loc msg))"

definition Check :: "Printers \<Rightarrow> Token_Kind \<Rightarrow> Lexer \<Rightarrow> Token result" where
  "Check P kind lx =
     (let tk = Current lx in
      if kind \<noteq> GetKind tk
      then Error (GetLocation tk)
             (''unexpected '' @ showToken P tk @ '', expecting '' @ showKind P kind)
      else Inr (tk, lx))"

definition Expect :: "Printers \<Rightarrow> Token_Kind \<Rightarrow> Lexer \<Rightarrow> Token result" where
  "Expect P kind lx = Check P kind (Next lx)"

definition ParseTermExpr :: "Printers \<Rightarrow> Lexer \<Rightarrow> Expr result" where
  "ParseTermExpr P lx =
     (let tk = Current lx in
      if GetKind tk = IDENT then
        bind (lift (GetIdent tk) lx) (\<lambda>ident lx. Inr (RefExpr ident, Next lx))
      else if GetKind tk = INT_kind then
        bind (lift (GetInt tk) lx) (\<lambda>val lx. Inr (IntExpr val, Next lx))
      else Error (GetLocation tk) (''unexpected '' @ showToken P tk @ '', expecting term''))"

text \<open>
  The expression ladder (\<^verbatim>\<open>parser.cpp\<close>, lines 209 to 276). Each \<^verbatim>\<open>while\<close> loop
  of the source is the function named \<open>\<dots>_loop\<close>; the inner loop of
  \<^verbatim>\<open>ParseCallExpr\<close> over the arguments is \<open>ParseCallExpr_args\<close>. The functions call
  each other, so they carry a bound \<open>n\<close> on the depth of calls and loop rounds: every
  call and every round passes \<open>n - 1\<close> on, and at \<open>0\<close> the result is \<open>OutOfFuel\<close>.
  The statements below say which bound is enough for the result they give.
  \<^verbatim>\<open>ParseExpr\<close> itself is declared in \<^verbatim>\<open>parser.h\<close>.

  Modelled from the spec: \<open>ParseExpr\<close> is \<^verbatim>\<open>ParseEqualityExpr\<close>, which the
  specification calls the ``entry point for all expression contexts''.
\<close>

function (sequential) ParseCallExpr :: "Printers \<Rightarrow> nat \<Rightarrow> Lexer \<Rightarrow> Expr result"
  and ParseCallExpr_loop :: "Printers \<Rightarrow> nat \<Rightarrow> Expr \<Rightarrow> Lexer \<Rightarrow> Expr result"
  and ParseCallExpr_args :: "Printers \<Rightarrow> nat \<Rightarrow> Expr list \<Rightarrow> Lexer \<Rightarrow> (Expr list) result"
  and ParseMulExpr :: "Printers \<Rightarrow> nat \<Rightarrow> Lexer \<Rightarrow> Expr result"
  and ParseMulExpr_loop :: "Printers \<Rightarrow> nat \<Rightarrow> Expr \<Rightarrow> Lexer \<Rightarrow> Expr result"
  and ParseAddSubExpr :: "Printers \<Rightarrow> nat \<Rightarrow> Lexer \<Rightarrow> Expr result"
  and ParseAddSubExpr_loop :: "Printers \<Rightarrow> nat \<Rightarrow> Expr \<Rightarrow> Lexer \<Rightarrow> Expr result"
  and ParseEqualityExpr :: "Printers \<Rightarrow> nat \<Rightarrow> Lexer \<Rightarrow> Expr result"
  and ParseEqualityExpr_loop :: "Printers \<Rightarrow> nat \<Rightarrow> Expr \<Rightarrow> Lexer \<Rightarrow> Expr result"
  and ParseExpr :: "Printers \<Rightarrow> nat \<Rightarrow> Lexer \<Rightarrow> Expr result"
where
  "ParseCallExpr P 0 lx = Inl OutOfFuel"
| "ParseCallExpr P (Suc n) lx =
     bind (ParseTermExpr P lx) (\<lambda>callee lx. ParseCallExpr_loop P n callee lx)"
| "ParseCallExpr_loop P 0 callee lx = Inl OutOfFuel"
| "ParseCallExpr_loop P (Suc n) callee lx =
     (if GetKind (Current lx) = LPAREN then
        bind (ParseCallExpr_args P n [] lx) (\<lambda>args lx.
        bind (Check P RPAREN lx) (\<lambda>_ lx.
        ParseCallExpr_loop P n (CallExpr callee args) (Next lx)))
      else Inr (callee, lx))"
| "ParseCallExpr_args P 0 args lx = Inl OutOfFuel"
| "ParseCallExpr_args P (Suc n) args lx =
     (if GetKind (Current (Next lx)) \<noteq> RPAREN then
        bind (ParseExpr P n (Next lx)) (\<lambda>arg lx.
        if GetKind (Current lx) \<noteq> COMMA then Inr (args @ [arg], lx)
        else ParseCallExpr_args P n (args @ [arg]) lx)
      else Inr (args, Next lx))"
| "ParseMulExpr P 0 lx = Inl OutOfFuel"
| "ParseMulExpr P (Suc n) lx =
     bind (ParseCallExpr P n lx) (\<lambda>term lx. ParseMulExpr_loop P n term lx)"
| "ParseMulExpr_loop P 0 term lx = Inl OutOfFuel"
| "ParseMulExpr_loop P (Suc n) term lx =
     (if GetKind (Current lx) = MUL then
        bind (ParseCallExpr P n (Next lx)) (\<lambda>rhs lx.
        ParseMulExpr_loop P n (BinaryExpr BinMUL term rhs) lx)
      else Inr (term, lx))"
| "ParseAddSubExpr P 0 lx = Inl OutOfFuel"
| "ParseAddSubExpr P (Suc n) lx =
     bind (ParseMulExpr P n lx) (\<lambda>term lx. ParseAddSubExpr_loop P n term lx)"
| "ParseAddSubExpr_loop P 0 term lx = Inl OutOfFuel"
| "ParseAddSubExpr_loop P (Suc n) term lx =
     (if GetKind (Current lx) = PLUS \<or> GetKind (Current lx) = SUB then
        (let isAddition = (GetKind (Current lx) = PLUS) in
         bind (ParseMulExpr P n (Next lx)) (\<lambda>rhs lx.
         if isAddition then ParseAddSubExpr_loop P n (BinaryExpr BinADD term rhs) lx
         else ParseAddSubExpr_loop P n (BinaryExpr BinSUB term rhs) lx))
      else Inr (term, lx))"
| "ParseEqualityExpr P 0 lx = Inl OutOfFuel"
| "ParseEqualityExpr P (Suc n) lx =
     bind (ParseAddSubExpr P n lx) (\<lambda>term lx. ParseEqualityExpr_loop P n term lx)"
| "ParseEqualityExpr_loop P 0 term lx = Inl OutOfFuel"
| "ParseEqualityExpr_loop P (Suc n) term lx =
     (if GetKind (Current lx) = EQUALS then
        bind (ParseAddSubExpr P n (Next lx)) (\<lambda>rhs lx.
        ParseEqualityExpr_loop P n (BinaryExpr BinEQUALS term rhs) lx)
      else Inr (term, lx))"
| "ParseExpr P 0 lx = Inl OutOfFuel"
| "ParseExpr P (Suc n) lx = ParseEqualityExpr P n lx"
  by pat_completeness auto

termination
  by (relation "measure (case_sum
        (case_sum (case_sum (fst \<circ> snd) (fst \<circ> snd))
                  (case_sum (fst \<circ> snd) (case_sum (fst \<circ> snd) (fst \<circ> snd))))
        (case_sum (case_sum (fst \<circ> snd) (fst \<circ> snd))
                  (case_sum (fst \<circ> snd) (case_sum (fst \<circ> snd) (fst \<circ> snd)))))")
     auto

text \<open>
  Statements that do not contain statements (\<^verbatim>\<open>parser.cpp\<close>, lines 118 to 126 and
  164 to 178), then the statements that do (lines 85 to 115 and 129 to 161).
\<close>

definition ParseReturnStmt :: "Printers \<Rightarrow> nat \<Rightarrow> Lexer \<Rightarrow> Stmt result" where
  "ParseReturnStmt P n lx =
     bind (Check P RETURN lx) (\<lambda>_ lx.
     bind (ParseExpr P n (Next lx)) (\<lambda>expr lx.
     bind (Check P SEMI lx) (\<lambda>_ lx.
     Inr (ReturnStmt expr, Next lx))))"

text \<open>
  \<^verbatim>\<open>ParseLetStmt\<close>, statement by statement. After \<^verbatim>\<open>Check(LET)\<close> the current
  token is still the keyword, and the name is read from it. Line 171 of the source,
  \<^verbatim>\<open>varDec.emplace_back(arg, type)\<close>, names no variable of the function and no member
  of a pair; the model leaves \<open>varDec\<close> as it was constructed, the pair of two empty
  strings.
\<close>

definition ParseLetStmt :: "Printers \<Rightarrow> nat \<Rightarrow> Lexer \<Rightarrow> Stmt result" where
  "ParseLetStmt P n lx =
     bind (Check P LET lx) (\<lambda>_ lx.
     (let varDec = ([], []) in
      bind (lift (GetIdent (Current lx)) lx) (\<lambda>name lx.
      bind (Expect P IDENT lx) (\<lambda>tk lx.
      bind (lift (GetIdent tk) lx) (\<lambda>type lx.
      bind (Expect P EQUAL lx) (\<lambda>_ lx.
      bind (ParseExpr P n (Next lx)) (\<lambda>varVal lx.
      Inr (LetStmt varDec varVal, lx))))))))"

function (sequential) ParseStmt :: "Printers \<Rightarrow> nat \<Rightarrow> Lexer \<Rightarrow> Stmt result"
  and ParseBlockStmt :: "Printers \<Rightarrow> nat \<Rightarrow> Lexer \<Rightarrow> Stmt result"
  and ParseBlockStmt_loop :: "Printers \<Rightarrow> nat \<Rightarrow> Stmt list \<Rightarrow> Lexer \<Rightarrow> (Stmt list) result"
  and ParseWhileStmt :: "Printers \<Rightarrow> nat \<Rightarrow> Lexer \<Rightarrow> Stmt result"
  and ParseIfStmt :: "Printers \<Rightarrow> nat \<Rightarrow> Lexer \<Rightarrow> Stmt result"
where
  "ParseStmt P 0 lx = Inl OutOfFuel"
| "ParseStmt P (Suc n) lx =
     (let tk = Current lx in
      if GetKind tk = RETURN then ParseReturnStmt P n lx
      else if GetKind tk = WHILE then ParseWhileStmt P n lx
      else if GetKind tk = IF then ParseIfStmt P n lx
      else if GetKind tk = LET then ParseLetStmt P n lx
      else if GetKind tk = LBRACE then ParseBlockStmt P n lx
      else
        bind (ParseExpr P n lx) (\<lambda>expr lx.
        bind (Check P SEMI lx) (\<lambda>_ lx.
        Inr (ExprStmt expr, Next lx))))"
| "ParseBlockStmt P 0 lx = Inl OutOfFuel"
| "ParseBlockStmt P (Suc n) lx =
     bind (Check P LBRACE lx) (\<lambda>_ lx.
     bind (ParseBlockStmt_loop P n [] (Next lx)) (\<lambda>body lx.
     bind (Check P RBRACE lx) (\<lambda>_ lx.
     Inr (BlockStmt body, Next lx))))"
| "ParseBlockStmt_loop P 0 body lx = Inl OutOfFuel"
| "ParseBlockStmt_loop P (Suc n) body lx =
     (if GetKind (Current lx) \<noteq> RBRACE then
        bind (ParseStmt P n lx) (\<lambda>stmt lx. ParseBlockStmt_loop P n (body @ [stmt]) lx)
      else Inr (body, lx))"
| "ParseWhileStmt P 0 lx = Inl OutOfFuel"
| "ParseWhileStmt P (Suc n) lx =
     bind (Check P WHILE lx) (\<lambda>_ lx.
     bind (Expect P LPAREN lx) (\<lambda>_ lx.
     bind (ParseExpr P n (Next lx)) (\<lambda>cond lx.
     bind (Check P RPAREN lx) (\<lambda>_ lx.
     bind (ParseStmt P n (Next lx)) (\<lambda>stmt lx.
     Inr (WhileStmt cond stmt, lx))))))"
| "ParseIfStmt P 0 lx = Inl OutOfFuel"
| "ParseIfStmt P (Suc n) lx =
     bind (Check P IF lx) (\<lambda>_ lx.
     bind (Expect P LPAREN lx) (\<lambda>_ lx.
     bind (ParseExpr P n (Next lx)) (\<lambda>cond lx.
     bind (Check P RPAREN lx) (\<lambda>_ lx.
     bind (ParseStmt P n (Next lx)) (\<lambda>ifStmt lx.
     if GetKind (Current lx) = ELSE then
       bind (ParseStmt P n (Next lx)) (\<lambda>elseStmt lx.
       Inr (IfStmt cond ifStmt (Some elseStmt), lx))
     else Inr (IfStmt cond ifStmt None, lx))))))"
  by pat_completeness auto

termination
  by (relation "measure (case_sum
        (case_sum (fst \<circ> snd) (fst \<circ> snd))
        (case_sum (fst \<circ> snd) (case_sum (fst \<circ> snd) (fst \<circ> snd))))")
     auto

text \<open>
  \<^verbatim>\<open>ParseModule\<close> (\<^verbatim>\<open>parser.cpp\<close>, lines 33 to 82): the parameter loop of a
  declaration, then the loop over the top-level statements. A token converts to \<^verbatim>\<open>true\<close> unless it is the end of the
  stream; the conversion belongs to \<^verbatim>\<open>lexer.h\<close>.

  Modelled from the spec: the module loop ``loops until the token source is exhausted''.
\<close>

fun ParseModule_args ::
  "Printers \<Rightarrow> nat \<Rightarrow> (string \<times> string) list \<Rightarrow> Lexer \<Rightarrow> ((string \<times> string) list) result"
where
  "ParseModule_args P 0 args lx = Inl OutOfFuel"
| "ParseModule_args P (Suc n) args lx =
     (if GetKind (Current (Next lx)) \<noteq> RPAREN then
        bind (lift (GetIdent (Current (Next lx))) (Next lx)) (\<lambda>arg lx.
        bind (Expect P COLON lx) (\<lambda>_ lx.
        bind (Expect P IDENT lx) (\<lambda>tk lx.
        bind (lift (GetIdent tk) lx) (\<lambda>type lx.
        if GetKind (Current (Next lx)) \<noteq> COMMA then Inr (args @ [(arg, type)], Next lx)
        else ParseModule_args P n (args @ [(arg, type)]) (Next lx)))))
      else Inr (args, Next lx))"

fun ParseModule_loop :: "Printers \<Rightarrow> nat \<Rightarrow> TopLevelStmt list \<Rightarrow> Lexer \<Rightarrow> Module result" where
  "ParseModule_loop P 0 body lx = Inl OutOfFuel"
| "ParseModule_loop P (Suc n) body lx =
     (let tk = Current lx in
      if GetKind tk = END then Inr (Module body, lx)
      else if GetKind tk = FUNC then
        bind (Expect P IDENT lx) (\<lambda>tk lx.
        bind (lift (GetIdent tk) lx) (\<lambda>name lx.
        bind (Expect P LPAREN lx) (\<lambda>_ lx.
        bind (ParseModule_args P n [] lx) (\<lambda>args lx.
        bind (Check P RPAREN lx) (\<lambda>_ lx.
        bind (Expect P COLON lx) (\<lambda>_ lx.
        bind (Expect P IDENT lx) (\<lambda>tk lx.
        bind (lift (GetIdent tk) lx) (\<lambda>type lx.
        if GetKind (Current (Next lx)) = EQUAL then
          bind (Expect P STRING (Next lx)) (\<lambda>tk lx.
          bind (lift (GetString tk) lx) (\<lambda>primitive lx.
          ParseModule_loop P n (body @ [ProtoDecl name args type primitive]) (Next lx)))
        else
          bind (ParseBlockStmt P n (Next lx)) (\<lambda>block lx.
          ParseModule_loop P n (body @ [FuncDecl name args type block]) lx)))))))))
      else
        bind (ParseStmt P n lx) (\<lambda>stmt lx.
        ParseModule_loop P n (body @ [TopStmt stmt]) lx))"

definition ParseModule :: "Printers \<Rightarrow> nat \<Rightarrow> Lexer \<Rightarrow> Module result" where
  "ParseModule P n lx = ParseModule_loop P n [] lx"

section \<open>The bytecode program\<close>

text \<open>
  \<^verbatim>\<open>Program::Read<T>\<close> of \<^verbatim>\<open>program.h\<close>. \<^verbatim>\<open>size_t\<close> is a 64-bit unsigned
  integer, so \<^verbatim>\<open>pc + sizeof(T)\<close> wraps around. The value read is given as the
  bytes of its object representation. The assertion is a branch of its own; when it
  passes, \<^verbatim>\<open>memcpy\<close> reads \<^verbatim>\<open>sizeof(T)\<close> bytes at \<^verbatim>\<open>code_.data() + pc\<close>,
  which is defined only while these bytes lie inside the vector.
\<close>

type_synonym size_t = "64 word"

record Program =
  code :: "8 word list"

datatype read_failure = AssertionFailed | UndefinedBehaviour

definition code_size :: "Program \<Rightarrow> size_t" where
  "code_size prog = of_nat (length (code prog))"

definition memcpy :: "8 word list \<Rightarrow> size_t \<Rightarrow> size_t \<Rightarrow> read_failure + 8 word list" where
  "memcpy buf off len =
     (if unat off + unat len \<le> length buf then Inr (take (unat len) (drop (unat off) buf))
      else Inl UndefinedBehaviour)"

definition Read :: "Program \<Rightarrow> size_t \<Rightarrow> size_t \<Rightarrow> read_failure + (8 word list \<times> size_t)" where
  "Read prog sizeof_T pc =
     (if \<not> (pc + sizeof_T \<le> code_size prog) then Inl AssertionFailed
      else case memcpy (code prog) pc sizeof_T of
             Inl e \<Rightarrow> Inl e
           | Inr t \<Rightarrow> Inr (t, pc + sizeof_T))"

section \<open>The runtime primitive \<^verbatim>\<open>print_int\<close>\<close>

text \<open>
  \<^verbatim>\<open>PrintInt\<close> of \<^verbatim>\<open>runtime.cpp\<close> works on the interpreter of \<^verbatim>\<open>interp.h\<close>.
  Of the interpreter the model keeps the operand stack, its top at the end of the list
  as in a vector, and the text written to standard output.

  Modelled from the spec: \<open>PeekInt\<close> and \<open>Push_int64\<close> (\<^verbatim>\<open>Interp::PeekInt\<close>,
  \<^verbatim>\<open>Interp::Push<int64_t>\<close>). \<^verbatim>\<open>print_int\<close> ``reads top-of-stack as an integer,
  writes its decimal form to standard output, pushes the same value back''; reading
  from an empty stack is a trap. A peek returns the top value and leaves the stack as
  it is; a push adds one value on top.
\<close>

datatype Value = ProtoVal string | AddrVal "64 word" | IntVal "64 word"

record Interp =
  stack :: "Value list"
  stdout :: string

datatype trap = EmptyStack | NotAnInteger

definition PeekInt :: "Interp \<Rightarrow> trap + 64 word" where
  "PeekInt interp =
     (if stack interp = [] then Inl EmptyStack
      else case last (stack interp) of IntVal v \<Rightarrow> Inr v | _ \<Rightarrow> Inl NotAnInteger)"

definition Push_int64 :: "64 word \<Rightarrow> Interp \<Rightarrow> Interp" where
  "Push_int64 v interp = interp\<lparr>stack := stack interp @ [IntVal v]\<rparr>"

definition PrintInt :: "Interp \<Rightarrow> trap + Interp" where
  "PrintInt interp =
     (case PeekInt interp of
        Inl e \<Rightarrow> Inl e
      | Inr v \<Rightarrow> Inr (Push_int64 v (interp\<lparr>stdout := stdout interp @ dec_int (sint v)\<rparr>)))"

section \<open>Vocabulary of the statements\<close>

text \<open>
  A term is the tightest-binding level of the expression grammar: an identifier or an
  integer literal. \<open>TermExpr\<close> is the node that stands for a term token.
\<close>

definition is_term :: "Token \<Rightarrow> bool" where
  "is_term tk \<longleftrightarrow> GetKind tk = IDENT \<or> GetKind tk = INT_kind"

definition TermExpr :: "Token \<Rightarrow> Expr" where
  "TermExpr tk = (if GetKind tk = IDENT then RefExpr (StringValue tk) else IntExpr (IntValue tk))"

text \<open>
  The tokens a lexer can still deliver: its remaining tokens and the end-of-stream
  token. A result stays \<open>within\<close> a lexer when the lexer it returns delivers no other
  tokens than these.
\<close>

definition tokens_of :: "Lexer \<Rightarrow> Token set" where
  "tokens_of lx = insert (EndToken (eof lx)) (set (rest lx))"

definition within :: "Lexer \<Rightarrow> 'a result \<Rightarrow> bool" where
  "within lx r = (case r of Inr (x, lx') \<Rightarrow> tokens_of lx' \<subseteq> tokens_of lx | Inl e \<Rightarrow> True)"

text \<open>
  Calls. A value of \<open>call\<close> names one call of a function of the parser with its
  arguments, and \<open>failure\<close> is the error the call ends in, if it ends in one.
  \<open>invokes P c c'\<close> says that the call \<open>c\<close> makes the call \<open>c'\<close> in its own body:
  there is one rule for every call written in \<^verbatim>\<open>parser.cpp\<close>, in the order of the
  source, and the premises of a rule say that the body reaches the call, that is, which
  branch is taken and that the calls before it returned. \<^verbatim>\<open>Error\<close> is not a call; the
  two places that raise are \<^verbatim>\<open>Check\<close> and \<^verbatim>\<open>ParseTermExpr\<close>, and
  \<open>rejects P c w\<close> says that the call \<open>c\<close> is one of them, that its current token is
  the one it refuses, and that \<open>w\<close> is the text it raises for that token.
\<close>

datatype call =
    C_Check Token_Kind Lexer
  | C_Expect Token_Kind Lexer
  | C_GetIdent Token
  | C_GetString Token
  | C_GetInt Token
  | C_ParseTermExpr Lexer
  | C_ParseCallExpr nat Lexer
  | C_ParseCallExpr_loop nat Expr Lexer
  | C_ParseCallExpr_args nat "Expr list" Lexer
  | C_ParseMulExpr nat Lexer
  | C_ParseMulExpr_loop nat Expr Lexer
  | C_ParseAddSubExpr nat Lexer
  | C_ParseAddSubExpr_loop nat Expr Lexer
  | C_ParseEqualityExpr nat Lexer
  | C_ParseEqualityExpr_loop nat Expr Lexer
  | C_ParseExpr nat Lexer
  | C_ParseReturnStmt nat Lexer
  | C_ParseLetStmt nat Lexer
  | C_ParseStmt nat Lexer
  | C_ParseBlockStmt nat Lexer
  | C_ParseBlockStmt_loop nat "Stmt list" Lexer
  | C_ParseWhileStmt nat Lexer
  | C_ParseIfStmt nat Lexer
  | C_ParseModule_args nat "(string \<times> string) list" Lexer
  | C_ParseModule_loop nat "TopLevelStmt list" Lexer
  | C_ParseModule nat Lexer

definition err_of :: "error + 'a \<Rightarrow> error option" where
  "err_of r = (case r of Inl e \<Rightarrow> Some e | Inr x \<Rightarrow> None)"

fun failure :: "Printers \<Rightarrow> call \<Rightarrow> error option" where
  "failure P (C_Check k lx) = err_of (Check P k lx)"
| "failure P (C_Expect k lx) = err_of (Expect P k lx)"
| "failure P (C_GetIdent tk) = err_of (GetIdent tk)"
| "failure P (C_GetString tk) = err_of (GetString tk)"
| "failure P (C_GetInt tk) = err_of (GetInt tk)"
| "failure P (C_ParseTermExpr lx) = err_of (ParseTermExpr P lx)"
| "failure P (C_ParseCallExpr n lx) = err_of (ParseCallExpr P n lx)"
| "failure P (C_ParseCallExpr_loop n callee lx) = err_of (ParseCallExpr_loop P n callee lx)"
| "failure P (C_ParseCallExpr_args n args lx) = err_of (ParseCallExpr_args P n args lx)"
| "failure P (C_ParseMulExpr n lx) = err_of (ParseMulExpr P n lx)"
| "failure P (C_ParseMulExpr_loop n t lx) = err_of (ParseMulExpr_loop P n t lx)"
| "failure P (C_ParseAddSubExpr n lx) = err_of (ParseAddSubExpr P n lx)"
| "failure P (C_ParseAddSubExpr_loop n t lx) = err_of (ParseAddSubExpr_loop P n t lx)"
| "failure P (C_ParseEqualityExpr n lx) = err_of (ParseEqualityExpr P n lx)"
| "failure P (C_ParseEqualityExpr_loop n t lx) = err_of (ParseEqualityExpr_loop P n t lx)"
| "failure P (C_ParseExpr n lx) = err_of (ParseExpr P n lx)"
| "failure P (C_ParseReturnStmt n lx) = err_of (ParseReturnStmt P n lx)"
| "failure P (C_ParseLetStmt n lx) = err_of (ParseLetStmt P n lx)"
| "failure P (C_ParseStmt n lx) = err_of (ParseStmt P n lx)"
| "failure P (C_ParseBlockStmt n lx) = err_of (ParseBlockStmt P n lx)"
| "failure P (C_ParseBlockStmt_loop n body lx) = err_of (ParseBlockStmt_loop P n body lx)"
| "failure P (C_ParseWhileStmt n lx) = err_of (ParseWhileStmt P n lx)"
| "failure P (C_ParseIfStmt n lx) = err_of (ParseIfStmt P n lx)"
| "failure P (C_ParseModule_args n args lx) = err_of (ParseModule_args P n args lx)"
| "failure P (C_ParseModule_loop n body lx) = err_of (ParseModule_loop P n body lx)"
| "failure P (C_ParseModule n lx) = err_of (ParseModule P n lx)"

inductive invokes :: "Printers \<Rightarrow> call \<Rightarrow> call \<Rightarrow> bool" for P :: Printers where
  Expect_1:
    "invokes P (C_Expect k lx) (C_Check k (Next lx))"
| ParseTermExpr_1:
    "GetKind (Current lx) = IDENT \<Longrightarrow>
     invokes P (C_ParseTermExpr lx) (C_GetIdent (Current lx))"
| ParseTermExpr_2:
    "GetKind (Current lx) = INT_kind \<Longrightarrow>
     invokes P (C_ParseTermExpr lx) (C_GetInt (Current lx))"
| ParseCallExpr_1:
    "invokes P (C_ParseCallExpr (Suc n) lx) (C_ParseTermExpr lx)"
| ParseCallExpr_2:
    "ParseTermExpr P lx = Inr (callee, lx1) \<Longrightarrow>
     invokes P (C_ParseCallExpr (Suc n) lx) (C_ParseCallExpr_loop n callee lx1)"
| ParseCallExpr_loop_1:
    "GetKind (Current lx) = LPAREN \<Longrightarrow>
     invokes P (C_ParseCallExpr_loop (Suc n) callee lx) (C_ParseCallExpr_args n [] lx)"
| ParseCallExpr_loop_2:
    "GetKind (Current lx) = LPAREN \<Longrightarrow>
     ParseCallExpr_args P n [] lx = Inr (args, lx1) \<Longrightarrow>
     invokes P (C_ParseCallExpr_loop (Suc n) callee lx) (C_Check RPAREN lx1)"
| ParseCallExpr_loop_3:
    "GetKind (Current lx) = LPAREN \<Longrightarrow>
     ParseCallExpr_args P n [] lx = Inr (args, lx1) \<Longrightarrow>
     Check P RPAREN lx1 = Inr (t2, lx2) \<Longrightarrow>
     invokes P (C_ParseCallExpr_loop (Suc n) callee lx)
       (C_ParseCallExpr_loop n (CallExpr callee args) (Next lx2))"
| ParseCallExpr_args_1:
    "GetKind (Current (Next lx)) \<noteq> RPAREN \<Longrightarrow>
     invokes P (C_ParseCallExpr_args (Suc n) args lx) (C_ParseExpr n (Next lx))"
| ParseCallExpr_args_2:
    "GetKind (Current (Next lx)) \<noteq> RPAREN \<Longrightarrow>
     ParseExpr P n (Next lx) = Inr (arg, lx1) \<Longrightarrow>
     GetKind (Current lx1) = COMMA \<Longrightarrow>
     invokes P (C_ParseCallExpr_args (Suc n) args lx)
       (C_ParseCallExpr_args n (args @ [arg]) lx1)"
| ParseMulExpr_1:
    "invokes P (C_ParseMulExpr (Suc n) lx) (C_ParseCallExpr n lx)"
| ParseMulExpr_2:
    "ParseCallExpr P n lx = Inr (t, lx1) \<Longrightarrow>
     invokes P (C_ParseMulExpr (Suc n) lx) (C_ParseMulExpr_loop n t lx1)"
| ParseMulExpr_loop_1:
    "GetKind (Current lx) = MUL \<Longrightarrow>
     invokes P (C_ParseMulExpr_loop (Suc n) t lx) (C_ParseCallExpr n (Next lx))"
| ParseMulExpr_loop_2:
    "GetKind (Current lx) = MUL \<Longrightarrow>
     ParseCallExpr P n (Next lx) = Inr (rhs, lx1) \<Longrightarrow>
     invokes P (C_ParseMulExpr_loop (Suc n) t lx)
       (C_ParseMulExpr_loop n (BinaryExpr BinMUL t rhs) lx1)"
| ParseAddSubExpr_1:
    "invokes P (C_ParseAddSubExpr (Suc n) lx) (C_ParseMulExpr n lx)"
| ParseAddSubExpr_2:
    "ParseMulExpr P n lx = Inr (t, lx1) \<Longrightarrow>
     invokes P (C_ParseAddSubExpr (Suc n) lx) (C_ParseAddSubExpr_loop n t lx1)"
| ParseAddSubExpr_loop_1:
    "GetKind (Current lx) = PLUS \<or> GetKind (Current lx) = SUB \<Longrightarrow>
     invokes P (C_ParseAddSubExpr_loop (Suc n) t lx) (C_ParseMulExpr n (Next lx))"
| ParseAddSubExpr_loop_2:
    "GetKind (Current lx) = PLUS \<or> GetKind (Current lx) = SUB \<Longrightarrow>
     ParseMulExpr P n (Next lx) = Inr (rhs, lx1) \<Longrightarrow>
     invokes P (C_ParseAddSubExpr_loop (Suc n) t lx)
       (C_ParseAddSubExpr_loop n (BinaryExpr (if GetKind (Current lx) = PLUS then BinADD else BinSUB) t rhs) lx1)"
| ParseEqualityExpr_1:
    "invokes P (C_ParseEqualityExpr (Suc n) lx) (C_ParseAddSubExpr n lx)"
| ParseEqualityExpr_2:
    "ParseAddSubExpr P n lx = Inr (t, lx1) \<Longrightarrow>
     invokes P (C_ParseEqualityExpr (Suc n) lx) (C_ParseEqualityExpr_loop n t lx1)"
| ParseEqualityExpr_loop_1:
    "GetKind (Current lx) = EQUALS \<Longrightarrow>
     invokes P (C_ParseEqualityExpr_loop (Suc n) t lx) (C_ParseAddSubExpr n (Next lx))"
| ParseEqualityExpr_loop_2:
    "GetKind (Current lx) = EQUALS \<Longrightarrow>
     ParseAddSubExpr P n (Next lx) = Inr (rhs, lx1) \<Longrightarrow>
     invokes P (C_ParseEqualityExpr_loop (Suc n) t lx)
       (C_ParseEqualityExpr_loop n (BinaryExpr BinEQUALS t rhs) lx1)"
| ParseExpr_1:
    "invokes P (C_ParseExpr (Suc n) lx) (C_ParseEqualityExpr n lx)"
| ParseReturnStmt_1:
    "invokes P (C_ParseReturnStmt n lx) (C_Check RETURN lx)"
| ParseReturnStmt_2:
    "Check P RETURN lx = Inr (t1, lx1) \<Longrightarrow>
     invokes P (C_ParseReturnStmt n lx) (C_ParseExpr n (Next lx1))"
| ParseReturnStmt_3:
    "Check P RETURN lx = Inr (t1, lx1) \<Longrightarrow>
     ParseExpr P n (Next lx1) = Inr (expr, lx2) \<Longrightarrow>
     invokes P (C_ParseReturnStmt n lx) (C_Check SEMI lx2)"
| ParseLetStmt_1:
    "invokes P (C_ParseLetStmt n lx) (C_Check LET lx)"
| ParseLetStmt_2:
    "Check P LET lx = Inr (t1, lx1) \<Longrightarrow>
     invokes P (C_ParseLetStmt n lx) (C_GetIdent (Current lx1))"
| ParseLetStmt_3:
    "Check P LET lx = Inr (t1, lx1) \<Longrightarrow>
     GetIdent (Current lx1) = Inr name \<Longrightarrow>
     invokes P (C_ParseLetStmt n lx) (C_Expect IDENT lx1)"
| ParseLetStmt_4:
    "Check P LET lx = Inr (t1, lx1) \<Longrightarrow>
     GetIdent (Current lx1) = Inr name \<Longrightarrow>
     Expect P IDENT lx1 = Inr (tk, lx2) \<Longrightarrow>
     invokes P (C_ParseLetStmt n lx) (C_GetIdent tk)"
| ParseLetStmt_5:
    "Check P LET lx = Inr (t1, lx1) \<Longrightarrow>
     GetIdent (Current lx1) = Inr name \<Longrightarrow>
     Expect P IDENT lx1 = Inr (tk, lx2) \<Longrightarrow>
     GetIdent tk = Inr ty \<Longrightarrow>
     invokes P (C_ParseLetStmt n lx) (C_Expect EQUAL lx2)"
| ParseLetStmt_6:
    "Check P LET lx = Inr (t1, lx1) \<Longrightarrow>
     GetIdent (Current lx1) = Inr name \<Longrightarrow>
     Expect P IDENT lx1 = Inr (tk, lx2) \<Longrightarrow>
     GetIdent tk = Inr ty \<Longrightarrow>
     Expect P EQUAL lx2 = Inr (t5, lx3) \<Longrightarrow>
     invokes P (C_ParseLetStmt n lx) (C_ParseExpr n (Next lx3))"
| ParseStmt_1:
    "GetKind (Current lx) = RETURN \<Longrightarrow>
     invokes P (C_ParseStmt (Suc n) lx) (C_ParseReturnStmt n lx)"
| ParseStmt_2:
    "GetKind (Current lx) = WHILE \<Longrightarrow>
     invokes P (C_ParseStmt (Suc n) lx) (C_ParseWhileStmt n lx)"
| ParseStmt_3:
    "GetKind (Current lx) = IF \<Longrightarrow>
     invokes P (C_ParseStmt (Suc n) lx) (C_ParseIfStmt n lx)"
| ParseStmt_4:
    "GetKind (Current lx) = LET \<Longrightarrow>
     invokes P (C_ParseStmt (Suc n) lx) (C_ParseLetStmt n lx)"
| ParseStmt_5:
    "GetKind (Current lx) = LBRACE \<Longrightarrow>
     invokes P (C_ParseStmt (Suc n) lx) (C_ParseBlockStmt n lx)"
| ParseStmt_6:
    "GetKind (Current lx) \<notin> {RETURN, WHILE, IF, LET, LBRACE} \<Longrightarrow>
     invokes P (C_ParseStmt (Suc n) lx) (C_ParseExpr n lx)"
| ParseStmt_7:
    "GetKind (Current lx) \<notin> {RETURN, WHILE, IF, LET, LBRACE} \<Longrightarrow>
     ParseExpr P n lx = Inr (expr, lx1) \<Longrightarrow>
     invokes P (C_ParseStmt (Suc n) lx) (C_Check SEMI lx1)"
| ParseBlockStmt_1:
    "invokes P (C_ParseBlockStmt (Suc n) lx) (C_Check LBRACE lx)"
| ParseBlockStmt_2:
    "Check P LBRACE lx = Inr (t1, lx1) \<Longrightarrow>
     invokes P (C_ParseBlockStmt (Suc n) lx) (C_ParseBlockStmt_loop n [] (Next lx1))"
| ParseBlockStmt_3:
    "Check P LBRACE lx = Inr (t1, lx1) \<Longrightarrow>
     ParseBlockStmt_loop P n [] (Next lx1) = Inr (body, lx2) \<Longrightarrow>
     invokes P (C_ParseBlockStmt (Suc n) lx) (C_Check RBRACE lx2)"
| ParseBlockStmt_loop_1:
    "GetKind (Current lx) \<noteq> RBRACE \<Longrightarrow>
     invokes P (C_ParseBlockStmt_loop (Suc n) body lx) (C_ParseStmt n lx)"
| ParseBlockStmt_loop_2:
    "GetKind (Current lx) \<noteq> RBRACE \<Longrightarrow>
     ParseStmt P n lx = Inr (stmt, lx1) \<Longrightarrow>
     invokes P (C_ParseBlockStmt_loop (Suc n) body lx)
       (C_ParseBlockStmt_loop n (body @ [stmt]) lx1)"
| ParseWhileStmt_1:
    "invokes P (C_ParseWhileStmt (Suc n) lx) (C_Check WHILE lx)"
| ParseWhileStmt_2:
    "Check P WHILE lx = Inr (t1, lx1) \<Longrightarrow>
     invokes P (C_ParseWhileStmt (Suc n) lx) (C_Expect LPAREN lx1)"
| ParseWhileStmt_3:
    "Check P WHILE lx = Inr (t1, lx1) \<Longrightarrow>
     Expect P LPAREN lx1 = Inr (t2, lx2) \<Longrightarrow>
     invokes P (C_ParseWhileStmt (Suc n) lx) (C_ParseExpr n (Next lx2))"
| ParseWhileStmt_4:
    "Check P WHILE lx = Inr (t1, lx1) \<Longrightarrow>
     Expect P LPAREN lx1 = Inr (t2, lx2) \<Longrightarrow>
     ParseExpr P n (Next lx2) = Inr (cond, lx3) \<Longrightarrow>
     invokes P (C_ParseWhileStmt (Suc n) lx) (C_Check RPAREN lx3)"
| ParseWhileStmt_5:
    "Check P WHILE lx = Inr (t1, lx1) \<Longrightarrow>
     Expect P LPAREN lx1 = Inr (t2, lx2) \<Longrightarrow>
     ParseExpr P n (Next lx2) = Inr (cond, lx3) \<Longrightarrow>
     Check P RPAREN lx3 = Inr (t4, lx4) \<Longrightarrow>
     invokes P (C_ParseWhileStmt (Suc n) lx) (C_ParseStmt n (Next lx4))"
| ParseIfStmt_1:
    "invokes P (C_ParseIfStmt (Suc n) lx) (C_Check IF lx)"
| ParseIfStmt_2:
    "Check P IF lx = Inr (t1, lx1) \<Longrightarrow>
     invokes P (C_ParseIfStmt (Suc n) lx) (C_Expect LPAREN lx1)"
| ParseIfStmt_3:
    "Check P IF lx = Inr (t1, lx1) \<Longrightarrow>
     Expect P LPAREN lx1 = Inr (t2, lx2) \<Longrightarrow>
     invokes P (C_ParseIfStmt (Suc n) lx) (C_ParseExpr n (Next lx2))"
| ParseIfStmt_4:
    "Check P IF lx = Inr (t1, lx1) \<Longrightarrow>
     Expect P LPAREN lx1 = Inr (t2, lx2) \<Longrightarrow>
     ParseExpr P n (Next lx2) = Inr (cond, lx3) \<Longrightarrow>
     invokes P (C_ParseIfStmt (Suc n) lx) (C_Check RPAREN lx3)"
| ParseIfStmt_5:
    "Check P IF lx = Inr (t1, lx1) \<Longrightarrow>
     Expect P LPAREN lx1 = Inr (t2, lx2) \<Longrightarrow>
     ParseExpr P n (Next lx2) = Inr (cond, lx3) \<Longrightarrow>
     Check P RPAREN lx3 = Inr (t4, lx4) \<Longrightarrow>
     invokes P (C_ParseIfStmt (Suc n) lx) (C_ParseStmt n (Next lx4))"
| ParseIfStmt_6:
    "Check P IF lx = Inr (t1, lx1) \<Longrightarrow>
     Expect P LPAREN lx1 = Inr (t2, lx2) \<Longrightarrow>
     ParseExpr P n (Next lx2) = Inr (cond, lx3) \<Longrightarrow>
     Check P RPAREN lx3 = Inr (t4, lx4) \<Longrightarrow>
     ParseStmt P n (Next lx4) = Inr (ifStmt, lx5) \<Longrightarrow>
     GetKind (Current lx5) = ELSE \<Longrightarrow>
     invokes P (C_ParseIfStmt (Suc n) lx) (C_ParseStmt n (Next lx5))"
| ParseModule_args_1:
    "GetKind (Current (Next lx)) \<noteq> RPAREN \<Longrightarrow>
     invokes P (C_ParseModule_args (Suc n) args lx) (C_GetIdent (Current (Next lx)))"
| ParseModule_args_2:
    "GetKind (Current (Next lx)) \<noteq> RPAREN \<Longrightarrow>
     GetIdent (Current (Next lx)) = Inr arg \<Longrightarrow>
     invokes P (C_ParseModule_args (Suc n) args lx) (C_Expect COLON (Next lx))"
| ParseModule_args_3:
    "GetKind (Current (Next lx)) \<noteq> RPAREN \<Longrightarrow>
     GetIdent (Current (Next lx)) = Inr arg \<Longrightarrow>
     Expect P COLON (Next lx) = Inr (t2, lx1) \<Longrightarrow>
     invokes P (C_ParseModule_args (Suc n) args lx) (C_Expect IDENT lx1)"
| ParseModule_args_4:
    "GetKind (Current (Next lx)) \<noteq> RPAREN \<Longrightarrow>
     GetIdent (Current (Next lx)) = Inr arg \<Longrightarrow>
     Expect P COLON (Next lx) = Inr (t2, lx1) \<Longrightarrow>
     Expect P IDENT lx1 = Inr (tk, lx2) \<Longrightarrow>
     invokes P (C_ParseModule_args (Suc n) args lx) (C_GetIdent tk)"
| ParseModule_args_5:
    "GetKind (Current (Next lx)) \<noteq> RPAREN \<Longrightarrow>
     GetIdent (Current (Next lx)) = Inr arg \<Longrightarrow>
     Expect P COLON (Next lx) = Inr (t2, lx1) \<Longrightarrow>
     Expect P IDENT lx1 = Inr (tk, lx2) \<Longrightarrow>
     GetIdent tk = Inr ty \<Longrightarrow>
     GetKind (Current (Next lx2)) = COMMA \<Longrightarrow>
     invokes P (C_ParseModule_args (Suc n) args lx)
       (C_ParseModule_args n (args @ [(arg, ty)]) (Next lx2))"
| ParseModule_loop_1:
    "GetKind (Current lx) = FUNC \<Longrightarrow>
     invokes P (C_ParseModule_loop (Suc n) body lx) (C_Expect IDENT lx)"
| ParseModule_loop_2:
    "GetKind (Current lx) = FUNC \<Longrightarrow>
     Expect P IDENT lx = Inr (tk1, lx1) \<Longrightarrow>
     invokes P (C_ParseModule_loop (Suc n) body lx) (C_GetIdent tk1)"
| ParseModule_loop_3:
    "GetKind (Current lx) = FUNC \<Longrightarrow>
     Expect P IDENT lx = Inr (tk1, lx1) \<Longrightarrow>
     GetIdent tk1 = Inr name \<Longrightarrow>
     invokes P (C_ParseModule_loop (Suc n) body lx) (C_Expect LPAREN lx1)"
| ParseModule_loop_4:
    "GetKind (Current lx) = FUNC \<Longrightarrow>
     Expect P IDENT lx = Inr (tk1, lx1) \<Longrightarrow>
     GetIdent tk1 = Inr name \<Longrightarrow>
     Expect P LPAREN lx1 = Inr (t3, lx2) \<Longrightarrow>
     invokes P (C_ParseModule_loop (Suc n) body lx) (C_ParseModule_args n [] lx2)"
| ParseModule_loop_5:
    "GetKind (Current lx) = FUNC \<Longrightarrow>
     Expect P IDENT lx = Inr (tk1, lx1) \<Longrightarrow>
     GetIdent tk1 = Inr name \<Longrightarrow>
     Expect P LPAREN lx1 = Inr (t3, lx2) \<Longrightarrow>
     ParseModule_args P n [] lx2 = Inr (args, lx3) \<Longrightarrow>
     invokes P (C_ParseModule_loop (Suc n) body lx) (C_Check RPAREN lx3)"
| ParseModule_loop_6:
    "GetKind (Current lx) = FUNC \<Longrightarrow>
     Expect P IDENT lx = Inr (tk1, lx1) \<Longrightarrow>
     GetIdent tk1 = Inr name \<Longrightarrow>
     Expect P LPAREN lx1 = Inr (t3, lx2) \<Longrightarrow>
     ParseModule_args P n [] lx2 = Inr (args, lx3) \<Longrightarrow>
     Check P RPAREN lx3 = Inr (t5, lx4) \<Longrightarrow>
     invokes P (C_ParseModule_loop (Suc n) body lx) (C_Expect COLON lx4)"
| ParseModule_loop_7:
    "GetKind (Current lx) = FUNC \<Longrightarrow>
     Expect P IDENT lx = Inr (tk1, lx1) \<Longrightarrow>
     GetIdent tk1 = Inr name \<Longrightarrow>
     Expect P LPAREN lx1 = Inr (t3, lx2) \<Longrightarrow>
     ParseModule_args P n [] lx2 = Inr (args, lx3) \<Longrightarrow>
     Check P RPAREN lx3 = Inr (t5, lx4) \<Longrightarrow>
     Expect P COLON lx4 = Inr (t6, lx5) \<Longrightarrow>
     invokes P (C_ParseModule_loop (Suc n) body lx) (C_Expect IDENT lx5)"
| ParseModule_loop_8:
    "GetKind (Current lx) = FUNC \<Longrightarrow>
     Expect P IDENT lx = Inr (tk1, lx1) \<Longrightarrow>
     GetIdent tk1 = Inr name \<Longrightarrow>
     Expect P LPAREN lx1 = Inr (t3, lx2) \<Longrightarrow>
     ParseModule_args P n [] lx2 = Inr (args, lx3) \<Longrightarrow>
     Check P RPAREN lx3 = Inr (t5, lx4) \<Longrightarrow>
     Expect P COLON lx4 = Inr (t6, lx5) \<Longrightarrow>
     Expect P IDENT lx5 = Inr (tk2, lx6) \<Longrightarrow>
     invokes P (C_ParseModule_loop (Suc n) body lx) (C_GetIdent tk2)"
| ParseModule_loop_9:
    "GetKind (Current lx) = FUNC \<Longrightarrow>
     Expect P IDENT lx = Inr (tk1, lx1) \<Longrightarrow>
     GetIdent tk1 = Inr name \<Longrightarrow>
     Expect P LPAREN lx1 = Inr (t3, lx2) \<Longrightarrow>
     ParseModule_args P n [] lx2 = Inr (args, lx3) \<Longrightarrow>
     Check P RPAREN lx3 = Inr (t5, lx4) \<Longrightarrow>
     Expect P COLON lx4 = Inr (t6, lx5) \<Longrightarrow>
     Expect P IDENT lx5 = Inr (tk2, lx6) \<Longrightarrow>
     GetIdent tk2 = Inr ty \<Longrightarrow>
     GetKind (Current (Next lx6)) = EQUAL \<Longrightarrow>
     invokes P (C_ParseModule_loop (Suc n) body lx) (C_Expect STRING (Next lx6))"
| ParseModule_loop_10:
    "GetKind (Current lx) = FUNC \<Longrightarrow>
     Expect P IDENT lx = Inr (tk1, lx1) \<Longrightarrow>
     GetIdent tk1 = Inr name \<Longrightarrow>
     Expect P LPAREN lx1 = Inr (t3, lx2) \<Longrightarrow>
     ParseModule_args P n [] lx2 = Inr (args, lx3) \<Longrightarrow>
     Check P RPAREN lx3 = Inr (t5, lx4) \<Longrightarrow>
     Expect P COLON lx4 = Inr (t6, lx5) \<Longrightarrow>
     Expect P IDENT lx5 = Inr (tk2, lx6) \<Longrightarrow>
     GetIdent tk2 = Inr ty \<Longrightarrow>
     GetKind (Current (Next lx6)) = EQUAL \<Longrightarrow>
     Expect P STRING (Next lx6) = Inr (tk3, lx7) \<Longrightarrow>
     invokes P (C_ParseModule_loop (Suc n) body lx) (C_GetString tk3)"
| ParseModule_loop_11:
    "GetKind (Current lx) = FUNC \<Longrightarrow>
     Expect P IDENT lx = Inr (tk1, lx1) \<Longrightarrow>
     GetIdent tk1 = Inr name \<Longrightarrow>
     Expect P LPAREN lx1 = Inr (t3, lx2) \<Longrightarrow>
     ParseModule_args P n [] lx2 = Inr (args, lx3) \<Longrightarrow>
     Check P RPAREN lx3 = Inr (t5, lx4) \<Longrightarrow>
     Expect P COLON lx4 = Inr (t6, lx5) \<Longrightarrow>
     Expect P IDENT lx5 = Inr (tk2, lx6) \<Longrightarrow>
     GetIdent tk2 = Inr ty \<Longrightarrow>
     GetKind (Current (Next lx6)) = EQUAL \<Longrightarrow>
     Expect P STRING (Next lx6) = Inr (tk3, lx7) \<Longrightarrow>
     GetString tk3 = Inr primitive \<Longrightarrow>
     invokes P (C_ParseModule_loop (Suc n) body lx)
       (C_ParseModule_loop n (body @ [ProtoDecl name args ty primitive]) (Next lx7))"
| ParseModule_loop_12:
    "GetKind (Current lx) = FUNC \<Longrightarrow>
     Expect P IDENT lx = Inr (tk1, lx1) \<Longrightarrow>
     GetIdent tk1 = Inr name \<Longrightarrow>
     Expect P LPAREN lx1 = Inr (t3, lx2) \<Longrightarrow>
     ParseModule_args P n [] lx2 = Inr (args, lx3) \<Longrightarrow>
     Check P RPAREN lx3 = Inr (t5, lx4) \<Longrightarrow>
     Expect P COLON lx4 = Inr (t6, lx5) \<Longrightarrow>
     Expect P IDENT lx5 = Inr (tk2, lx6) \<Longrightarrow>
     GetIdent tk2 = Inr ty \<Longrightarrow>
     GetKind (Current (Next lx6)) \<noteq> EQUAL \<Longrightarrow>
     invokes P (C_ParseModule_loop (Suc n) body lx) (C_ParseBlockStmt n (Next lx6))"
| ParseModule_loop_13:
    "GetKind (Current lx) = FUNC \<Longrightarrow>
     Expect P IDENT lx = Inr (tk1, lx1) \<Longrightarrow>
     GetIdent tk1 = Inr name \<Longrightarrow>
     Expect P LPAREN lx1 = Inr (t3, lx2) \<Longrightarrow>
     ParseModule_args P n [] lx2 = Inr (args, lx3) \<Longrightarrow>
     Check P RPAREN lx3 = Inr (t5, lx4) \<Longrightarrow>
     Expect P COLON lx4 = Inr (t6, lx5) \<Longrightarrow>
     Expect P IDENT lx5 = Inr (tk2, lx6) \<Longrightarrow>
     GetIdent tk2 = Inr ty \<Longrightarrow>
     GetKind (Current (Next lx6)) \<noteq> EQUAL \<Longrightarrow>
     ParseBlockStmt P n (Next lx6) = Inr (block, lx7) \<Longrightarrow>
     invokes P (C_ParseModule_loop (Suc n) body lx)
       (C_ParseModule_loop n (body @ [FuncDecl name args ty block]) lx7)"
| ParseModule_loop_14:
    "GetKind (Current lx) \<notin> {END, FUNC} \<Longrightarrow>
     invokes P (C_ParseModule_loop (Suc n) body lx) (C_ParseStmt n lx)"
| ParseModule_loop_15:
    "GetKind (Current lx) \<notin> {END, FUNC} \<Longrightarrow>
     ParseStmt P n lx = Inr (stmt, lx1) \<Longrightarrow>
     invokes P (C_ParseModule_loop (Suc n) body lx)
       (C_ParseModule_loop n (body @ [TopStmt stmt]) lx1)"
| ParseModule_1:
    "invokes P (C_ParseModule n lx) (C_ParseModule_loop n [] lx)"

fun call_tokens :: "call \<Rightarrow> Token set" where
  "call_tokens (C_Check k lx) = tokens_of lx"
| "call_tokens (C_Expect k lx) = tokens_of lx"
| "call_tokens (C_GetIdent tk) = {}"
| "call_tokens (C_GetString tk) = {}"
| "call_tokens (C_GetInt tk) = {}"
| "call_tokens (C_ParseTermExpr lx) = tokens_of lx"
| "call_tokens (C_ParseCallExpr n lx) = tokens_of lx"
| "call_tokens (C_ParseCallExpr_loop n callee lx) = tokens_of lx"
| "call_tokens (C_ParseCallExpr_args n args lx) = tokens_of lx"
| "call_tokens (C_ParseMulExpr n lx) = tokens_of lx"
| "call_tokens (C_ParseMulExpr_loop n t lx) = tokens_of lx"
| "call_tokens (C_ParseAddSubExpr n lx) = tokens_of lx"
| "call_tokens (C_ParseAddSubExpr_loop n t lx) = tokens_of lx"
| "call_tokens (C_ParseEqualityExpr n lx) = tokens_of lx"
| "call_tokens (C_ParseEqualityExpr_loop n t lx) = tokens_of lx"
| "call_tokens (C_ParseExpr n lx) = tokens_of lx"
| "call_tokens (C_ParseReturnStmt n lx) = tokens_of lx"
| "call_tokens (C_ParseLetStmt n lx) = tokens_of lx"
| "call_tokens (C_ParseStmt n lx) = tokens_of lx"
| "call_tokens (C_ParseBlockStmt n lx) = tokens_of lx"
| "call_tokens (C_ParseBlockStmt_loop n body lx) = tokens_of lx"
| "call_tokens (C_ParseWhileStmt n lx) = tokens_of lx"
| "call_tokens (C_ParseIfStmt n lx) = tokens_of lx"
| "call_tokens (C_ParseModule_args n args lx) = tokens_of lx"
| "call_tokens (C_ParseModule_loop n body lx) = tokens_of lx"
| "call_tokens (C_ParseModule n lx) = tokens_of lx"

fun rejects :: "Printers \<Rightarrow> call \<Rightarrow> string \<Rightarrow> bool" where
  "rejects P (C_Check k lx) w \<longleftrightarrow>
     GetKind (Current lx) \<noteq> k \<and>
     w = FormatMessage (GetLocation (Current lx))
           (''unexpected '' @ showToken P (Current lx) @ '', expecting '' @ showKind P k)"
| "rejects P (C_ParseTermExpr lx) w \<longleftrightarrow>
     \<not> is_term (Current lx) \<and>
     w = FormatMessage (GetLocation (Current lx))
           (''unexpected '' @ showToken P (Current lx) @ '', expecting term'')"
| "rejects P _ w \<longleftrightarrow> False"

definition origin :: "Printers \<Rightarrow> call \<Rightarrow> string \<Rightarrow> bool" where
  "origin P c w \<longleftrightarrow> (\<exists>c'. (invokes P)\<^sup>*\<^sup>* c c' \<and> rejects P c' w)"

text \<open>
  Concrete tokens, an end-of-input location and printers for the worked inputs. These
  printers write a token as the name of its kind.
\<close>

definition tok :: "Token_Kind \<Rightarrow> string \<Rightarrow> 64 word \<Rightarrow> int \<Rightarrow> Token" where
  "tok k s i c =
     \<lparr>GetKind = k, GetLocation = \<lparr>Name = ''t.imp'', Line = 1, Column = c\<rparr>,
      StringValue = s, IntValue = i\<rparr>"

fun kind_name :: "Token_Kind \<Rightarrow> string" where
  "kind_name FUNC = ''FUNC''"
| "kind_name RETURN = ''RETURN''"
| "kind_name WHILE = ''WHILE''"
| "kind_name IF = ''IF''"
| "kind_name ELSE = ''ELSE''"
| "kind_name LET = ''LET''"
| "kind_name LPAREN = ''LPAREN''"
| "kind_name RPAREN = ''RPAREN''"
| "kind_name LBRACE = ''LBRACE''"
| "kind_name RBRACE = ''RBRACE''"
| "kind_name COLON = ''COLON''"
| "kind_name SEMI = ''SEMI''"
| "kind_name EQUAL = ''EQUAL''"
| "kind_name EQUALS = ''EQUALS''"
| "kind_name COMMA = ''COMMA''"
| "kind_name PLUS = ''PLUS''"
| "kind_name SUB = ''SUB''"
| "kind_name MUL = ''MUL''"
| "kind_name INT_kind = ''INT''"
| "kind_name STRING = ''STRING''"
| "kind_name IDENT = ''IDENT''"
| "kind_name END = ''END''"

definition printers :: Printers where
  "printers = \<lparr>showToken = (\<lambda>tk. kind_name (GetKind tk)), showKind = kind_name\<rparr>"

definition eof_loc :: Location where
  "eof_loc = \<lparr>Name = ''t.imp'', Line = 2, Column = 1\<rparr>"

text \<open>
  The lexer that has consumed the first \<open>k\<close> of the tokens \<open>ts\<close>, and the tokens of
  \<open>func f(): int { x y; } func g(): int { z; }\<close>, where the body of \<open>f\<close> lacks a
  semicolon after \<open>x\<close>.
\<close>

definition sample_lexer :: "Token list \<Rightarrow> nat \<Rightarrow> Lexer" where
  "sample_lexer ts k = \<lparr>rest = drop k ts, eof = eof_loc\<rparr>"

definition two_funcs :: "Token list" where
  "two_funcs =
     [tok FUNC [] 0 1, tok IDENT ''f'' 0 6, tok LPAREN [] 0 7, tok RPAREN [] 0 8,
      tok COLON [] 0 9, tok IDENT ''int'' 0 11, tok LBRACE [] 0 15, tok IDENT ''x'' 0 17,
      tok IDENT ''y'' 0 19, tok SEMI [] 0 20, tok RBRACE [] 0 22,
      tok FUNC [] 0 24, tok IDENT ''g'' 0 29, tok LPAREN [] 0 30, tok RPAREN [] 0 31,
      tok COLON [] 0 32, tok IDENT ''int'' 0 34, tok LBRACE [] 0 38, tok IDENT ''z'' 0 40,
      tok SEMI [] 0 41, tok RBRACE [] 0 43]"

section \<open>Basic facts\<close>

lemma bind_Inr [simp]: "bind (Inr (x, lx)) f = f x lx"
  by (simp add: bind_def)

lemma bind_Inl [simp]: "bind (Inl e) f = Inl e"
  by (simp add: bind_def)

lemma Current_Cons [simp]: "Current \<lparr>rest = tk # tks, eof = e\<rparr> = tk"
  by (simp add: Current_def)

lemma Current_Nil [simp]: "Current \<lparr>rest = [], eof = e\<rparr> = EndToken e"
  by (simp add: Current_def)

lemma Next_Cons [simp]: "Next \<lparr>rest = tk # tks, eof = e\<rparr> = \<lparr>rest = tks, eof = e\<rparr>"
  by (simp add: Next_def)

lemma Next_Nil [simp]: "Next \<lparr>rest = [], eof = e\<rparr> = \<lparr>rest = [], eof = e\<rparr>"
  by (simp add: Next_def)

lemma ParseTermExpr_term:
  "is_term (Current lx) \<Longrightarrow> ParseTermExpr P lx = Inr (TermExpr (Current lx), Next lx)"
  by (auto simp: ParseTermExpr_def is_term_def TermExpr_def GetIdent_def GetInt_def lift_def Let_def)

lemma Check_ok: "GetKind (Current lx) = kind \<Longrightarrow> Check P kind lx = Inr (Current lx, lx)"
  by (simp add: Check_def Let_def)

lemma fuel_ge: "k \<le> (n::nat) \<Longrightarrow> \<exists>m. n = m + k"
  by (rule exI[of _ "n - k"]) simp

section \<open>Operator precedence and associativity\<close>

text \<open>
  C4. For every token sequence \<open>a + b * c\<close> of three terms, followed by a token that
  continues neither the call, the product nor the sum, \<^verbatim>\<open>ParseAddSubExpr\<close> returns
  \<open>BinaryExpr(ADD, a, BinaryExpr(MUL, b, c))\<close> and stops in front of that token:
  multiplication binds tighter than addition. A call depth of six is enough.
\<close>

theorem add_mul_precedence:
  assumes "is_term a" "is_term b" "is_term c"
    and "GetKind op1 = PLUS" "GetKind op2 = MUL"
    and "GetKind (Current \<lparr>rest = tks, eof = e\<rparr>) \<notin> {LPAREN, MUL, PLUS, SUB}"
    and "6 \<le> n"
  shows "ParseAddSubExpr P n \<lparr>rest = a # op1 # b # op2 # c # tks, eof = e\<rparr> =
         Inr (BinaryExpr BinADD (TermExpr a) (BinaryExpr BinMUL (TermExpr b) (TermExpr c)),
              \<lparr>rest = tks, eof = e\<rparr>)"
proof -
  from \<open>6 \<le> n\<close> obtain m where n: "n = m + 6"
    using fuel_ge by blast
  show ?thesis
    using assms(1-6) unfolding n by (simp add: ParseTermExpr_term eval_nat_numeral)
qed

theorem add_mul_precedence_witness:
  "ParseAddSubExpr printers 6
     \<lparr>rest = [tok IDENT ''a'' 0 1, tok PLUS [] 0 3, tok INT_kind [] 2 5, tok MUL [] 0 7,
              tok IDENT ''c'' 0 9, tok SEMI [] 0 10],
      eof = eof_loc\<rparr> =
    Inr (BinaryExpr BinADD (RefExpr ''a'') (BinaryExpr BinMUL (IntExpr 2) (RefExpr ''c'')),
         \<lparr>rest = [tok SEMI [] 0 10], eof = eof_loc\<rparr>)"
  using add_mul_precedence [of "tok IDENT ''a'' 0 1" "tok INT_kind [] 2 5" "tok IDENT ''c'' 0 9"
      "tok PLUS [] 0 3" "tok MUL [] 0 7" "[tok SEMI [] 0 10]" eof_loc 6 printers]
  by (simp add: is_term_def TermExpr_def tok_def)

text \<open>
  C5. For every token sequence \<open>a - b - c\<close> of three terms, followed by a token that
  continues neither the call, the product nor the sum, \<^verbatim>\<open>ParseAddSubExpr\<close> returns
  the left-associative tree \<open>BinaryExpr(SUB, BinaryExpr(SUB, a, b), c)\<close>.
\<close>

theorem sub_left_assoc:
  assumes "is_term a" "is_term b" "is_term c"
    and "GetKind op1 = SUB" "GetKind op2 = SUB"
    and "GetKind (Current \<lparr>rest = tks, eof = e\<rparr>) \<notin> {LPAREN, MUL, PLUS, SUB}"
    and "6 \<le> n"
  shows "ParseAddSubExpr P n \<lparr>rest = a # op1 # b # op2 # c # tks, eof = e\<rparr> =
         Inr (BinaryExpr BinSUB (BinaryExpr BinSUB (TermExpr a) (TermExpr b)) (TermExpr c),
              \<lparr>rest = tks, eof = e\<rparr>)"
proof -
  from \<open>6 \<le> n\<close> obtain m where n: "n = m + 6"
    using fuel_ge by blast
  show ?thesis
    using assms(1-6) unfolding n by (simp add: ParseTermExpr_term eval_nat_numeral)
qed

theorem sub_left_assoc_witness:
  "ParseAddSubExpr printers 6
     \<lparr>rest = [tok INT_kind [] 9 1, tok SUB [] 0 3, tok IDENT ''b'' 0 5, tok SUB [] 0 7,
              tok INT_kind [] 1 9, tok RPAREN [] 0 10],
      eof = eof_loc\<rparr> =
    Inr (BinaryExpr BinSUB (BinaryExpr BinSUB (IntExpr 9) (RefExpr ''b'')) (IntExpr 1),
         \<lparr>rest = [tok RPAREN [] 0 10], eof = eof_loc\<rparr>)"
  using sub_left_assoc [of "tok INT_kind [] 9 1" "tok IDENT ''b'' 0 5" "tok INT_kind [] 1 9"
      "tok SUB [] 0 3" "tok SUB [] 0 7" "[tok RPAREN [] 0 10]" eof_loc 6 printers]
  by (simp add: is_term_def TermExpr_def tok_def)

text \<open>
  C6. For every token sequence \<open>a == b + c\<close> of three terms, followed by a token that
  continues no expression, \<^verbatim>\<open>ParseEqualityExpr\<close> returns
  \<open>BinaryExpr(EQUALS, a, BinaryExpr(ADD, b, c))\<close>; with \<open>-\<close> or \<open>*\<close> in the place
  of \<open>+\<close> the right operand is the difference or the product: equality binds loosest
  of all binary operators. The entry point \<^verbatim>\<open>ParseExpr\<close> of every expression
  context is \<^verbatim>\<open>ParseEqualityExpr\<close>.
\<close>

theorem equality_loosest:
  assumes "is_term a" "is_term b" "is_term c"
    and "GetKind op1 = EQUALS" "GetKind op2 \<in> {PLUS, SUB, MUL}"
    and "GetKind (Current \<lparr>rest = tks, eof = e\<rparr>) \<notin> {LPAREN, MUL, PLUS, SUB, EQUALS}"
    and "7 \<le> n"
  shows "ParseEqualityExpr P n \<lparr>rest = a # op1 # b # op2 # c # tks, eof = e\<rparr> =
           Inr (BinaryExpr BinEQUALS (TermExpr a)
                  (BinaryExpr (if GetKind op2 = PLUS then BinADD
                               else if GetKind op2 = SUB then BinSUB else BinMUL)
                     (TermExpr b) (TermExpr c)),
                \<lparr>rest = tks, eof = e\<rparr>)
       \<and> ParseExpr P (Suc n) \<lparr>rest = a # op1 # b # op2 # c # tks, eof = e\<rparr> =
           ParseEqualityExpr P n \<lparr>rest = a # op1 # b # op2 # c # tks, eof = e\<rparr>"
proof -
  from \<open>7 \<le> n\<close> obtain m where n: "n = m + 7"
    using fuel_ge by blast
  show ?thesis
    using assms(1-6) unfolding n by (auto simp add: ParseTermExpr_term eval_nat_numeral)
qed

theorem equality_loosest_witness:
  "ParseEqualityExpr printers 7
     \<lparr>rest = [tok IDENT ''a'' 0 1, tok EQUALS [] 0 3, tok IDENT ''b'' 0 6, tok PLUS [] 0 8,
              tok INT_kind [] 1 10, tok SEMI [] 0 11],
      eof = eof_loc\<rparr> =
    Inr (BinaryExpr BinEQUALS (RefExpr ''a'') (BinaryExpr BinADD (RefExpr ''b'') (IntExpr 1)),
         \<lparr>rest = [tok SEMI [] 0 11], eof = eof_loc\<rparr>)"
  using equality_loosest [of "tok IDENT ''a'' 0 1" "tok IDENT ''b'' 0 6" "tok INT_kind [] 1 10"
      "tok EQUALS [] 0 3" "tok PLUS [] 0 8" "[tok SEMI [] 0 11]" eof_loc 7 printers]
  by (simp add: is_term_def TermExpr_def tok_def)

text \<open>
  C7. For every token sequence \<open>f(x)(y)\<close>, with \<open>f\<close> an identifier and \<open>x\<close>, \<open>y\<close>
  terms, followed by a token other than an opening parenthesis, \<^verbatim>\<open>ParseCallExpr\<close>
  returns \<open>CallExpr(CallExpr(RefExpr(f), [x]), [y])\<close>: the call built from the first
  argument list is the callee of the second.
\<close>

theorem call_chain:
  assumes "GetKind f = IDENT" "is_term x" "is_term y"
    and "GetKind lp1 = LPAREN" "GetKind rp1 = RPAREN" "GetKind lp2 = LPAREN" "GetKind rp2 = RPAREN"
    and "GetKind (Current \<lparr>rest = tks, eof = e\<rparr>) \<noteq> LPAREN"
    and "10 \<le> n"
  shows "ParseCallExpr P n \<lparr>rest = f # lp1 # x # rp1 # lp2 # y # rp2 # tks, eof = e\<rparr> =
         Inr (CallExpr (CallExpr (RefExpr (StringValue f)) [TermExpr x]) [TermExpr y],
              \<lparr>rest = tks, eof = e\<rparr>)"
proof -
  from \<open>10 \<le> n\<close> obtain m where n: "n = m + 10"
    using fuel_ge by blast
  have f: "is_term f" "TermExpr f = RefExpr (StringValue f)"
    using assms(1) by (simp_all add: is_term_def TermExpr_def)
  have xy: "GetKind x \<noteq> RPAREN" "GetKind y \<noteq> RPAREN"
    using assms(2,3) by (auto simp: is_term_def)
  show ?thesis
    using assms(2-8) f xy unfolding n by (simp add: ParseTermExpr_term eval_nat_numeral Check_ok)
qed

theorem call_chain_witness:
  "ParseCallExpr printers 10
     \<lparr>rest = [tok IDENT ''f'' 0 1, tok LPAREN [] 0 2, tok IDENT ''x'' 0 3, tok RPAREN [] 0 4,
              tok LPAREN [] 0 5, tok INT_kind [] 7 6, tok RPAREN [] 0 7, tok SEMI [] 0 8],
      eof = eof_loc\<rparr> =
    Inr (CallExpr (CallExpr (RefExpr ''f'') [RefExpr ''x'']) [IntExpr 7],
         \<lparr>rest = [tok SEMI [] 0 8], eof = eof_loc\<rparr>)"
  using call_chain [of "tok IDENT ''f'' 0 1" "tok IDENT ''x'' 0 3" "tok INT_kind [] 7 6"
      "tok LPAREN [] 0 2" "tok RPAREN [] 0 4" "tok LPAREN [] 0 5" "tok RPAREN [] 0 7"
      "[tok SEMI [] 0 8]" eof_loc 10 printers]
  by (simp add: is_term_def TermExpr_def tok_def)

section \<open>Calls and the errors they end in\<close>

lemma err_of_Some [simp]: "err_of r = Some e \<longleftrightarrow> r = Inl e"
  by (cases r) (simp_all add: err_of_def)

lemma lift_Inl [simp]: "lift r lx = Inl e \<longleftrightarrow> r = Inl e"
  by (cases r) (simp_all add: lift_def)

lemma lift_Inr [simp]: "lift r lx = Inr (x, lx') \<longleftrightarrow> r = Inr x \<and> lx' = lx"
  by (cases r) (auto simp: lift_def)

lemma lift_simps [simp]: "lift (Inr x) lx = Inr (x, lx)" "lift (Inl e) lx = Inl e"
  by (simp_all add: lift_def)

lemma invokes_propagates:
  "invokes P c c' \<Longrightarrow> failure P c' = Some e \<Longrightarrow> failure P c = Some e"
  by (induction rule: invokes.induct)
     (auto simp add: Expect_def ParseTermExpr_def ParseReturnStmt_def ParseLetStmt_def
        ParseModule_def Let_def)

lemma invoked_propagates:
  "(invokes P)\<^sup>*\<^sup>* c c' \<Longrightarrow> failure P c' = Some e \<Longrightarrow> failure P c = Some e"
  by (induction rule: rtranclp_induct) (auto dest: invokes_propagates)

lemma invoked_refl: "(invokes P)\<^sup>*\<^sup>* c c"
  by simp

lemma invoked_step:
  "(invokes P)\<^sup>*\<^sup>* c c' \<Longrightarrow> invokes P c' c'' \<Longrightarrow> (invokes P)\<^sup>*\<^sup>* c c''"
  by (rule rtranclp.rtrancl_into_rtrancl)

lemma Check_mismatch:
  "GetKind (Current lx) \<noteq> k \<Longrightarrow>
   Check P k lx = Inl (ParserError (FormatMessage (GetLocation (Current lx))
     (''unexpected '' @ showToken P (Current lx) @ '', expecting '' @ showKind P k)))"
  by (simp add: Check_def Error_def Let_def)

lemma Next_sample [simp]: "Next (sample_lexer ts k) = sample_lexer ts (Suc k)"
  by (simp add: Next_def sample_lexer_def drop_Suc tl_drop split: list.splits)
     (metis drop_Suc list.sel(3) tl_drop)

lemma Current_sample:
  "Current (sample_lexer ts k) = (if k < length ts then ts ! k else EndToken eof_loc)"
  by (auto simp: Current_def sample_lexer_def hd_drop_conv_nth split: list.splits)
     (metis hd_drop_conv_nth list.sel(1))

lemma dec_int_digits:
  "dec_int 1 = ''1''" "dec_int 2 = ''2''" "dec_int 3 = ''3''" "dec_int 4 = ''4''"
  "dec_int 6 = ''6''" "dec_int 19 = ''19''"
  by (simp_all add: dec_int_def dec_nat.simps)

lemmas sample_eval = Current_sample two_funcs_def tok_def Expect_def Check_def Let_def
  GetIdent_def eval_nat_numeral ParseTermExpr_def

section \<open>Error policy\<close>

text \<open>
  C8. \<^verbatim>\<open>Expect(k)\<close> is \<^verbatim>\<open>Check(k)\<close> on the lexer after one advance.
  \<^verbatim>\<open>Check(k)\<close> returns the current token and leaves the lexer where it is when the
  kinds agree; otherwise it raises the parse error whose text is made from the location
  of the current token and the message \<open>unexpected <token>, expecting <kind>\<close>. Nothing
  catches an error: when a call ends in an error, every call that made it, directly or
  through other calls, ends in the same error. So a \<^verbatim>\<open>Check\<close> or an \<^verbatim>\<open>Expect\<close>
  that is reached anywhere in the course of \<^verbatim>\<open>ParseModule\<close>, in a parameter list, a
  return type, a function body, a statement or an expression, and finds another kind of
  token makes \<^verbatim>\<open>ParseModule\<close> end in its error, whatever follows in the input.
\<close>

theorem Expect_Check_error_policy:
  "Expect P k lx = Check P k (Next lx)
   \<and> (GetKind (Current lx) = k \<longrightarrow> Check P k lx = Inr (Current lx, lx))
   \<and> (GetKind (Current lx) \<noteq> k \<longrightarrow>
        Check P k lx = Inl (ParserError (FormatMessage (GetLocation (Current lx))
          (''unexpected '' @ showToken P (Current lx) @ '', expecting '' @ showKind P k))))
   \<and> (GetKind (Current (Next lx)) = k \<longrightarrow> Expect P k lx = Inr (Current (Next lx), Next lx))
   \<and> (GetKind (Current (Next lx)) \<noteq> k \<longrightarrow>
        Expect P k lx = Inl (ParserError (FormatMessage (GetLocation (Current (Next lx)))
          (''unexpected '' @ showToken P (Current (Next lx)) @ '', expecting '' @ showKind P k))))
   \<and> ((invokes P)\<^sup>*\<^sup>* c0 c \<longrightarrow> failure P c = Some err \<longrightarrow> failure P c0 = Some err)
   \<and> ((invokes P)\<^sup>*\<^sup>* (C_ParseModule n0 lx0) c \<longrightarrow> failure P c = Some err \<longrightarrow>
        ParseModule P n0 lx0 = Inl err)
   \<and> ((invokes P)\<^sup>*\<^sup>* (C_ParseModule n0 lx0) (C_Check k lx) \<longrightarrow> GetKind (Current lx) \<noteq> k \<longrightarrow>
        ParseModule P n0 lx0 = Inl (ParserError (FormatMessage (GetLocation (Current lx))
          (''unexpected '' @ showToken P (Current lx) @ '', expecting '' @ showKind P k))))
   \<and> ((invokes P)\<^sup>*\<^sup>* (C_ParseModule n0 lx0) (C_Expect k lx) \<longrightarrow>
        GetKind (Current (Next lx)) \<noteq> k \<longrightarrow>
        ParseModule P n0 lx0 = Inl (ParserError (FormatMessage (GetLocation (Current (Next lx)))
          (''unexpected '' @ showToken P (Current (Next lx)) @ '', expecting '' @ showKind P k))))"
proof (intro conjI impI)
  show "Expect P k lx = Check P k (Next lx)"
    by (simp add: Expect_def)
  show "Check P k lx = Inr (Current lx, lx)" if "GetKind (Current lx) = k"
    using that by (simp add: Check_def Let_def)
  show "Check P k lx = Inl (ParserError (FormatMessage (GetLocation (Current lx))
          (''unexpected '' @ showToken P (Current lx) @ '', expecting '' @ showKind P k)))"
    if "GetKind (Current lx) \<noteq> k"
    using that by (rule Check_mismatch)
  show "Expect P k lx = Inr (Current (Next lx), Next lx)" if "GetKind (Current (Next lx)) = k"
    using that by (simp add: Expect_def Check_def Let_def)
  show "Expect P k lx = Inl (ParserError (FormatMessage (GetLocation (Current (Next lx)))
          (''unexpected '' @ showToken P (Current (Next lx)) @ '', expecting '' @ showKind P k)))"
    if "GetKind (Current (Next lx)) \<noteq> k"
    using that by (simp add: Expect_def Check_mismatch)
  show "failure P c0 = Some err" if "(invokes P)\<^sup>*\<^sup>* c0 c" "failure P c = Some err"
    using that by (rule invoked_propagates)
  show "ParseModule P n0 lx0 = Inl err"
    if "(invokes P)\<^sup>*\<^sup>* (C_ParseModule n0 lx0) c" "failure P c = Some err"
    using invoked_propagates [OF that] by simp
  show "ParseModule P n0 lx0 = Inl (ParserError (FormatMessage (GetLocation (Current lx))
          (''unexpected '' @ showToken P (Current lx) @ '', expecting '' @ showKind P k)))"
    if "(invokes P)\<^sup>*\<^sup>* (C_ParseModule n0 lx0) (C_Check k lx)" "GetKind (Current lx) \<noteq> k"
    using invoked_propagates [OF that(1)] Check_mismatch [OF that(2)] by simp
  show "ParseModule P n0 lx0 = Inl (ParserError (FormatMessage (GetLocation (Current (Next lx)))
          (''unexpected '' @ showToken P (Current (Next lx)) @ '', expecting '' @ showKind P k)))"
    if "(invokes P)\<^sup>*\<^sup>* (C_ParseModule n0 lx0) (C_Expect k lx)"
      "GetKind (Current (Next lx)) \<noteq> k"
    using invoked_propagates [OF that(1)] Check_mismatch [OF that(2)]
    by (simp add: Expect_def)
qed

theorem Expect_Check_error_policy_witness:
  "ParseModule printers 10 (sample_lexer two_funcs 0) =
     Inl (ParserError ''[t.imp:1:19] unexpected IDENT, expecting SEMI'')"
proof -
  let ?at = "sample_lexer two_funcs"
  have s1: "invokes printers (C_ParseModule 10 (?at 0)) (C_ParseModule_loop 10 [] (?at 0))"
    by (rule invokes.ParseModule_1)
  have s2: "invokes printers (C_ParseModule_loop 10 [] (?at 0)) (C_ParseBlockStmt 9 (?at 6))"
    using invokes.ParseModule_loop_12 [where P = printers and lx = "?at 0" and n = 9
        and body = "[]" and ?tk1.0 = "two_funcs ! 1" and ?lx1.0 = "?at 1" and name = "''f''"
        and ?t3.0 = "two_funcs ! 2" and ?lx2.0 = "?at 2" and args = "[]" and ?lx3.0 = "?at 3"
        and ?t5.0 = "two_funcs ! 3" and ?lx4.0 = "?at 3" and ?t6.0 = "two_funcs ! 4"
        and ?lx5.0 = "?at 4" and ?tk2.0 = "two_funcs ! 5" and ?lx6.0 = "?at 5" and ty = "''int''"]
    by (simp add: sample_eval)
  have s3: "invokes printers (C_ParseBlockStmt 9 (?at 6)) (C_ParseBlockStmt_loop 8 [] (?at 7))"
    using invokes.ParseBlockStmt_2 [where P = printers and lx = "?at 6" and n = 8
        and ?t1.0 = "two_funcs ! 6" and ?lx1.0 = "?at 6"]
    by (simp add: sample_eval)
  have s4: "invokes printers (C_ParseBlockStmt_loop 8 [] (?at 7)) (C_ParseStmt 7 (?at 7))"
    using invokes.ParseBlockStmt_loop_1 [where P = printers and lx = "?at 7" and n = 7
        and body = "[]"]
    by (simp add: sample_eval)
  have s5: "invokes printers (C_ParseStmt 7 (?at 7)) (C_Check SEMI (?at 8))"
    using invokes.ParseStmt_7 [where P = printers and lx = "?at 7" and n = 6
        and expr = "RefExpr ''x''" and ?lx1.0 = "?at 8"]
    by (simp add: sample_eval)
  note r = invoked_step
  have inv: "(invokes printers)\<^sup>*\<^sup>* (C_ParseModule 10 (?at 0)) (C_Check SEMI (?at 8))"
    by (rule r [OF r [OF r [OF r [OF r [OF invoked_refl s1] s2] s3] s4] s5])
  have k: "GetKind (Current (?at 8)) \<noteq> SEMI"
    by (simp add: sample_eval)
  from Expect_Check_error_policy [where P = printers and ?n0.0 = 10 and ?lx0.0 = "?at 0"
      and k = SEMI and lx = "?at 8"] inv k
  show ?thesis
    by (simp add: FormatMessage_def printers_def Current_sample two_funcs_def tok_def
        dec_int_digits)
qed

section \<open>Where the lexer can be\<close>

lemma tokens_Next: "tokens_of (Next lx) \<subseteq> tokens_of lx"
  by (cases "rest lx") (auto simp: tokens_of_def Next_def)

lemma Current_tokens: "Current lx \<in> tokens_of lx"
  by (cases "rest lx") (auto simp: tokens_of_def Current_def)

lemma wr_Inr: "tokens_of lx' \<subseteq> tokens_of lx \<Longrightarrow> within lx (Inr (x, lx'))"
  by (simp add: within_def)

lemma wr_fuel: "within lx (Inl e)"
  by (simp add: within_def)

lemma wr_Error: "within lx (Error loc msg)"
  by (simp add: within_def Error_def)

lemma wr_mono: "within lx' r \<Longrightarrow> tokens_of lx' \<subseteq> tokens_of lx \<Longrightarrow> within lx r"
  by (auto simp: within_def split: sum.splits)

lemma wr_Next: "within (Next lx) r \<Longrightarrow> within lx r"
  by (rule wr_mono [OF _ tokens_Next])

lemma wr_bind:
  assumes "within lx m" "\<And>x lx'. within lx' (f x lx')"
  shows "within lx (bind m f)"
proof (cases m)
  case (Inl e)
  with assms(1) show ?thesis by (simp add: within_def)
next
  case (Inr p)
  obtain x lx' where p: "p = (x, lx')" by (cases p)
  from assms(1) Inr p have "tokens_of lx' \<subseteq> tokens_of lx" by (simp add: within_def)
  with assms(2) [of lx' x] show ?thesis
    unfolding Inr p by (simp add: wr_mono)
qed

lemma wr_Check: "within lx (Check P k lx)"
  by (simp add: Check_def Let_def wr_Inr wr_Error)

lemma wr_Expect: "within lx (Expect P k lx)"
  unfolding Expect_def by (rule wr_Next) (rule wr_Check)

lemma wr_lift_GetIdent: "within lx (lift (GetIdent tk) lx)"
  by (simp add: lift_def GetIdent_def within_def)

lemma wr_lift_GetIdent_Next: "within lx (lift (GetIdent tk) (Next lx))"
  by (simp add: lift_def GetIdent_def within_def tokens_Next)

lemma wr_lift_GetString: "within lx (lift (GetString tk) lx)"
  by (simp add: lift_def GetString_def within_def)

lemma wr_ParseTermExpr: "within lx (ParseTermExpr P lx)"
  by (simp add: ParseTermExpr_def Let_def lift_def GetIdent_def GetInt_def
      wr_Inr wr_Error tokens_Next)

lemma wr_Inr_refl: "within lx (Inr (x, lx))"
  by (simp add: wr_Inr)

lemma wr_Inr_Next: "within lx (Inr (x, Next lx))"
  by (simp add: wr_Inr tokens_Next)

lemma wr_if:
  "(c \<Longrightarrow> within lx a) \<Longrightarrow> (\<not> c \<Longrightarrow> within lx b) \<Longrightarrow>
   within lx (if c then a else b)"
  by simp

lemmas wr_rules = wr_lift_GetIdent wr_lift_GetIdent_Next wr_lift_GetString wr_if wr_bind wr_Check wr_Expect wr_ParseTermExpr wr_Inr_refl wr_Inr_Next wr_fuel

lemma wr_expr:
  "(\<forall>lx. within lx (ParseCallExpr P n lx))
 \<and> (\<forall>c lx. within lx (ParseCallExpr_loop P n c lx))
 \<and> (\<forall>a lx. within lx (ParseCallExpr_args P n a lx))
 \<and> (\<forall>lx. within lx (ParseMulExpr P n lx))
 \<and> (\<forall>t lx. within lx (ParseMulExpr_loop P n t lx))
 \<and> (\<forall>lx. within lx (ParseAddSubExpr P n lx))
 \<and> (\<forall>t lx. within lx (ParseAddSubExpr_loop P n t lx))
 \<and> (\<forall>lx. within lx (ParseEqualityExpr P n lx))
 \<and> (\<forall>t lx. within lx (ParseEqualityExpr_loop P n t lx))
 \<and> (\<forall>lx. within lx (ParseExpr P n lx))"
proof (induction n)
  case 0
  show ?case by (simp add: wr_fuel)
next
  case (Suc n)
  then have ih:
    "\<And>lx. within lx (ParseCallExpr P n lx)"
    "\<And>c lx. within lx (ParseCallExpr_loop P n c lx)"
    "\<And>a lx. within lx (ParseCallExpr_args P n a lx)"
    "\<And>lx. within lx (ParseMulExpr P n lx)"
    "\<And>t lx. within lx (ParseMulExpr_loop P n t lx)"
    "\<And>lx. within lx (ParseAddSubExpr P n lx)"
    "\<And>t lx. within lx (ParseAddSubExpr_loop P n t lx)"
    "\<And>lx. within lx (ParseEqualityExpr P n lx)"
    "\<And>t lx. within lx (ParseEqualityExpr_loop P n t lx)"
    "\<And>lx. within lx (ParseExpr P n lx)"
    by blast+
  note ihN = ih [THEN wr_Next]
  have 1: "within lx (ParseCallExpr P (Suc n) lx)" for lx
    by (simp, intro wr_rules ih ihN)
  have 2: "within lx (ParseCallExpr_loop P (Suc n) c lx)" for c lx
    by (simp, intro wr_rules ih ihN conjI impI)
  have 3: "within lx (ParseCallExpr_args P (Suc n) a lx)" for a lx
    by (simp, intro wr_rules ih ihN conjI impI)
  have 4: "within lx (ParseMulExpr P (Suc n) lx)" for lx
    by (simp, intro wr_rules ih ihN conjI impI)
  have 5: "within lx (ParseMulExpr_loop P (Suc n) t lx)" for t lx
    by (simp, intro wr_rules ih ihN conjI impI)
  have 6: "within lx (ParseAddSubExpr P (Suc n) lx)" for lx
    by (simp, intro wr_rules ih ihN conjI impI)
  have 7: "within lx (ParseAddSubExpr_loop P (Suc n) t lx)" for t lx
    by (simp add: Let_def, intro wr_rules ih ihN conjI impI)
  have 8: "within lx (ParseEqualityExpr P (Suc n) lx)" for lx
    by (simp, intro wr_rules ih ihN conjI impI)
  have 9: "within lx (ParseEqualityExpr_loop P (Suc n) t lx)" for t lx
    by (simp, intro wr_rules ih ihN conjI impI)
  have 10: "within lx (ParseExpr P (Suc n) lx)" for lx
    by (simp add: ih)
  from 1 2 3 4 5 6 7 8 9 10 show ?case by blast
qed


lemmas wr_ParseExpr = wr_expr [THEN conjunct2, THEN conjunct2, THEN conjunct2, THEN conjunct2,
  THEN conjunct2, THEN conjunct2, THEN conjunct2, THEN conjunct2, THEN conjunct2, rule_format]

lemma wr_ParseReturnStmt: "within lx (ParseReturnStmt P n lx)"
  unfolding ParseReturnStmt_def
  by (intro wr_rules wr_ParseExpr wr_ParseExpr [THEN wr_Next])

lemma wr_ParseLetStmt: "within lx (ParseLetStmt P n lx)"
  unfolding ParseLetStmt_def Let_def
  by (intro wr_rules wr_ParseExpr wr_ParseExpr [THEN wr_Next])

lemma wr_stmt:
  "(\<forall>lx. within lx (ParseStmt P n lx))
 \<and> (\<forall>lx. within lx (ParseBlockStmt P n lx))
 \<and> (\<forall>b lx. within lx (ParseBlockStmt_loop P n b lx))
 \<and> (\<forall>lx. within lx (ParseWhileStmt P n lx))
 \<and> (\<forall>lx. within lx (ParseIfStmt P n lx))"
proof (induction n)
  case 0
  show ?case by (simp add: wr_fuel)
next
  case (Suc n)
  then have ih:
    "\<And>lx. within lx (ParseStmt P n lx)"
    "\<And>lx. within lx (ParseBlockStmt P n lx)"
    "\<And>b lx. within lx (ParseBlockStmt_loop P n b lx)"
    "\<And>lx. within lx (ParseWhileStmt P n lx)"
    "\<And>lx. within lx (ParseIfStmt P n lx)"
    by blast+
  note ihN = ih [THEN wr_Next]
  note ex = wr_ParseExpr wr_ParseExpr [THEN wr_Next] wr_ParseReturnStmt wr_ParseLetStmt
  have 1: "within lx (ParseStmt P (Suc n) lx)" for lx
    unfolding ParseStmt.simps Let_def by (intro wr_rules ih ihN ex)
  have 2: "within lx (ParseBlockStmt P (Suc n) lx)" for lx
    unfolding ParseBlockStmt.simps by (intro wr_rules ih ihN ex)
  have 3: "within lx (ParseBlockStmt_loop P (Suc n) b lx)" for b lx
    unfolding ParseBlockStmt_loop.simps by (intro wr_rules ih ihN ex)
  have 4: "within lx (ParseWhileStmt P (Suc n) lx)" for lx
    unfolding ParseWhileStmt.simps by (intro wr_rules ih ihN ex)
  have 5: "within lx (ParseIfStmt P (Suc n) lx)" for lx
    unfolding ParseIfStmt.simps by (intro wr_rules ih ihN ex)
  from 1 2 3 4 5 show ?case by blast
qed

lemma wr_ParseModule_args: "within lx (ParseModule_args P n a lx)"
proof (induction n arbitrary: a lx)
  case 0
  show ?case by (simp add: wr_fuel)
next
  case (Suc n)
  show ?case
    unfolding ParseModule_args.simps
    by (intro wr_rules Suc Suc [THEN wr_Next])
qed

lemma wr_ParseModule_loop: "within lx (ParseModule_loop P n b lx)"
proof (induction n arbitrary: b lx)
  case 0
  show ?case by (simp add: wr_fuel)
next
  case (Suc n)
  note st = wr_stmt [THEN conjunct1, rule_format]
    wr_stmt [THEN conjunct2, THEN conjunct1, rule_format, THEN wr_Next]
  show ?case
    unfolding ParseModule_loop.simps Let_def
    by (intro wr_rules Suc Suc [THEN wr_Next] st wr_ParseModule_args wr_Expect [THEN wr_Next])
qed

lemma withinD: "within lx r \<Longrightarrow> r = Inr (x, lx') \<Longrightarrow> tokens_of lx' \<subseteq> tokens_of lx"
  by (simp add: within_def)

lemmas wr_ParseStmt = wr_stmt [THEN conjunct1, rule_format]

lemmas wr_ParseBlockStmt = wr_stmt [THEN conjunct2, THEN conjunct1, rule_format]

lemmas wr_ParseBlockStmt_loop =
  wr_stmt [THEN conjunct2, THEN conjunct2, THEN conjunct1, rule_format]

lemmas wr_ParseCallExpr = wr_expr [THEN conjunct1, rule_format]

lemmas wr_ParseCallExpr_args = wr_expr [THEN conjunct2, THEN conjunct2, THEN conjunct1, rule_format]

lemmas wr_ParseMulExpr =
  wr_expr [THEN conjunct2, THEN conjunct2, THEN conjunct2, THEN conjunct1, rule_format]

lemmas wr_ParseAddSubExpr =
  wr_expr [THEN conjunct2, THEN conjunct2, THEN conjunct2, THEN conjunct2, THEN conjunct2,
    THEN conjunct1, rule_format]

lemmas stays =
  wr_Check [THEN withinD] wr_Expect [THEN withinD] wr_ParseTermExpr [THEN withinD]
  wr_ParseCallExpr [THEN withinD] wr_ParseCallExpr_args [THEN withinD]
  wr_ParseMulExpr [THEN withinD] wr_ParseAddSubExpr [THEN withinD]
  wr_ParseExpr [THEN withinD] wr_ParseStmt [THEN withinD] wr_ParseBlockStmt [THEN withinD]
  wr_ParseBlockStmt_loop [THEN withinD] wr_ParseModule_args [THEN withinD]

lemma tokens_NextD: "tk \<in> tokens_of (Next lx) \<Longrightarrow> tk \<in> tokens_of lx"
  using tokens_Next by blast

lemma invokes_tokens: "invokes P c c' \<Longrightarrow> call_tokens c' \<subseteq> call_tokens c"
  apply (induction rule: invokes.induct)
  apply (auto dest!: stays dest: tokens_NextD)
  apply (meson tokens_NextD subsetD)+
  done

lemma invoked_tokens: "(invokes P)\<^sup>*\<^sup>* c c' \<Longrightarrow> call_tokens c' \<subseteq> call_tokens c"
  by (induction rule: rtranclp_induct) (auto dest: invokes_tokens)

section \<open>Where an error comes from\<close>

lemma origin_via: "invokes P c c' \<Longrightarrow> origin P c' w \<Longrightarrow> origin P c w"
  unfolding origin_def by (blast intro: converse_rtranclp_into_rtranclp)

lemma origin_Check: "Check P k lx = Inl (ParserError w) \<Longrightarrow> origin P (C_Check k lx) w"
  unfolding origin_def
  by (rule exI [of _ "C_Check k lx"]) (auto simp: Check_def Error_def Let_def split: if_splits)

lemma origin_Expect: "Expect P k lx = Inl (ParserError w) \<Longrightarrow> origin P (C_Expect k lx) w"
  by (rule origin_via [OF invokes.Expect_1]) (simp add: Expect_def origin_Check)

lemma origin_ParseTermExpr:
  "ParseTermExpr P lx = Inl (ParserError w) \<Longrightarrow> origin P (C_ParseTermExpr lx) w"
  unfolding origin_def
  by (rule exI [of _ "C_ParseTermExpr lx"])
     (auto simp: ParseTermExpr_def Error_def Let_def is_term_def GetIdent_def GetInt_def
        split: if_splits)

lemma Get_no_ParserError [simp]:
  "GetIdent tk \<noteq> Inl (ParserError w)" "GetString tk \<noteq> Inl (ParserError w)"
  "GetInt tk \<noteq> Inl (ParserError w)"
  by (simp_all add: GetIdent_def GetString_def GetInt_def)

lemma bind_InlE:
  assumes "bind m f = Inl e"
  obtains "m = Inl e" | x lx where "m = Inr (x, lx)" "f x lx = Inl e"
  using assms by (cases m) (auto simp: bind_def)

lemmas origin_leaf = origin_Check origin_Expect origin_ParseTermExpr

lemma origin_expr:
  "(\<forall>lx w. ParseCallExpr P n lx = Inl (ParserError w) \<longrightarrow>
        origin P (C_ParseCallExpr n lx) w)
 \<and> (\<forall>c lx w. ParseCallExpr_loop P n c lx = Inl (ParserError w) \<longrightarrow>
        origin P (C_ParseCallExpr_loop n c lx) w)
 \<and> (\<forall>a lx w. ParseCallExpr_args P n a lx = Inl (ParserError w) \<longrightarrow>
        origin P (C_ParseCallExpr_args n a lx) w)
 \<and> (\<forall>lx w. ParseMulExpr P n lx = Inl (ParserError w) \<longrightarrow>
        origin P (C_ParseMulExpr n lx) w)
 \<and> (\<forall>t lx w. ParseMulExpr_loop P n t lx = Inl (ParserError w) \<longrightarrow>
        origin P (C_ParseMulExpr_loop n t lx) w)
 \<and> (\<forall>lx w. ParseAddSubExpr P n lx = Inl (ParserError w) \<longrightarrow>
        origin P (C_ParseAddSubExpr n lx) w)
 \<and> (\<forall>t lx w. ParseAddSubExpr_loop P n t lx = Inl (ParserError w) \<longrightarrow>
        origin P (C_ParseAddSubExpr_loop n t lx) w)
 \<and> (\<forall>lx w. ParseEqualityExpr P n lx = Inl (ParserError w) \<longrightarrow>
        origin P (C_ParseEqualityExpr n lx) w)
 \<and> (\<forall>t lx w. ParseEqualityExpr_loop P n t lx = Inl (ParserError w) \<longrightarrow>
        origin P (C_ParseEqualityExpr_loop n t lx) w)
 \<and> (\<forall>lx w. ParseExpr P n lx = Inl (ParserError w) \<longrightarrow>
        origin P (C_ParseExpr n lx) w)"
proof (induction n)
  case 0
  show ?case by simp
next
  case (Suc n)
  then have ih:
    "\<And>lx w. ParseCallExpr P n lx = Inl (ParserError w) \<Longrightarrow>
        origin P (C_ParseCallExpr n lx) w"
    "\<And>c lx w. ParseCallExpr_loop P n c lx = Inl (ParserError w) \<Longrightarrow>
        origin P (C_ParseCallExpr_loop n c lx) w"
    "\<And>a lx w. ParseCallExpr_args P n a lx = Inl (ParserError w) \<Longrightarrow>
        origin P (C_ParseCallExpr_args n a lx) w"
    "\<And>lx w. ParseMulExpr P n lx = Inl (ParserError w) \<Longrightarrow>
        origin P (C_ParseMulExpr n lx) w"
    "\<And>t lx w. ParseMulExpr_loop P n t lx = Inl (ParserError w) \<Longrightarrow>
        origin P (C_ParseMulExpr_loop n t lx) w"
    "\<And>lx w. ParseAddSubExpr P n lx = Inl (ParserError w) \<Longrightarrow>
        origin P (C_ParseAddSubExpr n lx) w"
    "\<And>t lx w. ParseAddSubExpr_loop P n t lx = Inl (ParserError w) \<Longrightarrow>
        origin P (C_ParseAddSubExpr_loop n t lx) w"
    "\<And>lx w. ParseEqualityExpr P n lx = Inl (ParserError w) \<Longrightarrow>
        origin P (C_ParseEqualityExpr n lx) w"
    "\<And>t lx w. ParseEqualityExpr_loop P n t lx = Inl (ParserError w) \<Longrightarrow>
        origin P (C_ParseEqualityExpr_loop n t lx) w"
    "\<And>lx w. ParseExpr P n lx = Inl (ParserError w) \<Longrightarrow>
        origin P (C_ParseExpr n lx) w"
    by simp_all
  note leaf = ih origin_leaf
  have 1: "origin P (C_ParseCallExpr (Suc n) lx) w"
    if "ParseCallExpr P (Suc n) lx = Inl (ParserError w)" for lx w
    using that
    apply (auto simp: Let_def elim!: bind_InlE split: if_splits)
    apply (((rule origin_via [OF invokes.ParseCallExpr_1]; (rule leaf)?; (assumption | (simp; fail)))
     | (rule origin_via [OF invokes.ParseCallExpr_2]; (rule leaf)?; (assumption | (simp; fail))))+)?
    done
  have 2: "origin P (C_ParseCallExpr_loop (Suc n) c lx) w"
    if "ParseCallExpr_loop P (Suc n) c lx = Inl (ParserError w)" for c lx w
    using that
    apply (auto simp: Let_def elim!: bind_InlE split: if_splits)
    apply (((rule origin_via [OF invokes.ParseCallExpr_loop_1]; (rule leaf)?; (assumption | (simp; fail)))
     | (rule origin_via [OF invokes.ParseCallExpr_loop_2]; (rule leaf)?; (assumption | (simp; fail)))
     | (rule origin_via [OF invokes.ParseCallExpr_loop_3]; (rule leaf)?; (assumption | (simp; fail))))+)?
    done
  have 3: "origin P (C_ParseCallExpr_args (Suc n) a lx) w"
    if "ParseCallExpr_args P (Suc n) a lx = Inl (ParserError w)" for a lx w
    using that
    apply (auto simp: Let_def elim!: bind_InlE split: if_splits)
    apply (((rule origin_via [OF invokes.ParseCallExpr_args_1]; (rule leaf)?; (assumption | (simp; fail)))
     | (rule origin_via [OF invokes.ParseCallExpr_args_2]; (rule leaf)?; (assumption | (simp; fail))))+)?
    done
  have 4: "origin P (C_ParseMulExpr (Suc n) lx) w"
    if "ParseMulExpr P (Suc n) lx = Inl (ParserError w)" for lx w
    using that
    apply (auto simp: Let_def elim!: bind_InlE split: if_splits)
    apply (((rule origin_via [OF invokes.ParseMulExpr_1]; (rule leaf)?; (assumption | (simp; fail)))
     | (rule origin_via [OF invokes.ParseMulExpr_2]; (rule leaf)?; (assumption | (simp; fail))))+)?
    done
  have 5: "origin P (C_ParseMulExpr_loop (Suc n) t lx) w"
    if "ParseMulExpr_loop P (Suc n) t lx = Inl (ParserError w)" for t lx w
    using that
    apply (auto simp: Let_def elim!: bind_InlE split: if_splits)
    apply (((rule origin_via [OF invokes.ParseMulExpr_loop_1]; (rule leaf)?; (assumption | (simp; fail)))
     | (rule origin_via [OF invokes.ParseMulExpr_loop_2]; (rule leaf)?; (assumption | (simp; fail))))+)?
    done
  have 6: "origin P (C_ParseAddSubExpr (Suc n) lx) w"
    if "ParseAddSubExpr P (Suc n) lx = Inl (ParserError w)" for lx w
    using that
    apply (auto simp: Let_def elim!: bind_InlE split: if_splits)
    apply (((rule origin_via [OF invokes.ParseAddSubExpr_1]; (rule leaf)?; (assumption | (simp; fail)))
     | (rule origin_via [OF invokes.ParseAddSubExpr_2]; (rule leaf)?; (assumption | (simp; fail))))+)?
    done
  have 7: "origin P (C_ParseAddSubExpr_loop (Suc n) t lx) w"
    if "ParseAddSubExpr_loop P (Suc n) t lx = Inl (ParserError w)" for t lx w
    using that
    apply (auto simp: Let_def elim!: bind_InlE split: if_splits)
    apply (((rule origin_via [OF invokes.ParseAddSubExpr_loop_1]; (rule leaf)?; (assumption | (simp; fail)))
     | (rule origin_via [OF invokes.ParseAddSubExpr_loop_2]; (rule leaf)?; (assumption | (simp; fail))))+)?
    done
  have 8: "origin P (C_ParseEqualityExpr (Suc n) lx) w"
    if "ParseEqualityExpr P (Suc n) lx = Inl (ParserError w)" for lx w
    using that
    apply (auto simp: Let_def elim!: bind_InlE split: if_splits)
    apply (((rule origin_via [OF invokes.ParseEqualityExpr_1]; (rule leaf)?; (assumption | (simp; fail)))
     | (rule origin_via [OF invokes.ParseEqualityExpr_2]; (rule leaf)?; (assumption | (simp; fail))))+)?
    done
  have 9: "origin P (C_ParseEqualityExpr_loop (Suc n) t lx) w"
    if "ParseEqualityExpr_loop P (Suc n) t lx = Inl (ParserError w)" for t lx w
    using that
    apply (auto simp: Let_def elim!: bind_InlE split: if_splits)
    apply (((rule origin_via [OF invokes.ParseEqualityExpr_loop_1]; (rule leaf)?; (assumption | (simp; fail)))
     | (rule origin_via [OF invokes.ParseEqualityExpr_loop_2]; (rule leaf)?; (assumption | (simp; fail))))+)?
    done
  have 10: "origin P (C_ParseExpr (Suc n) lx) w"
    if "ParseExpr P (Suc n) lx = Inl (ParserError w)" for lx w
    using that
    apply (auto simp: Let_def elim!: bind_InlE split: if_splits)
    apply (((rule origin_via [OF invokes.ParseExpr_1]; (rule leaf)?; (assumption | (simp; fail))))+)?
    done
  from 1 2 3 4 5 6 7 8 9 10 show ?case by blast
qed

lemmas origin_ParseExpr = origin_expr [THEN conjunct2, THEN conjunct2, THEN conjunct2,
  THEN conjunct2, THEN conjunct2, THEN conjunct2, THEN conjunct2, THEN conjunct2, THEN conjunct2,
  rule_format]

lemma origin_ParseReturnStmt:
  assumes "ParseReturnStmt P n lx = Inl (ParserError w)"
  shows "origin P (C_ParseReturnStmt n lx) w"
proof -
  note leaf = origin_leaf origin_ParseExpr
  from assms show ?thesis
    apply (auto simp: ParseReturnStmt_def elim!: bind_InlE split: if_splits)
    apply (((rule origin_via [OF invokes.ParseReturnStmt_1]; (rule leaf)?; (assumption | (simp; fail)))
     | (rule origin_via [OF invokes.ParseReturnStmt_2]; (rule leaf)?; (assumption | (simp; fail)))
     | (rule origin_via [OF invokes.ParseReturnStmt_3]; (rule leaf)?; (assumption | (simp; fail))))+)?
    done
qed

lemma origin_ParseLetStmt:
  assumes "ParseLetStmt P n lx = Inl (ParserError w)"
  shows "origin P (C_ParseLetStmt n lx) w"
proof -
  note leaf = origin_leaf origin_ParseExpr
  from assms show ?thesis
    apply (auto simp: ParseLetStmt_def Let_def elim!: bind_InlE split: if_splits)
    apply (((rule origin_via [OF invokes.ParseLetStmt_1]; (rule leaf)?; (assumption | (simp; fail)))
     | (rule origin_via [OF invokes.ParseLetStmt_2]; (rule leaf)?; (assumption | (simp; fail)))
     | (rule origin_via [OF invokes.ParseLetStmt_3]; (rule leaf)?; (assumption | (simp; fail)))
     | (rule origin_via [OF invokes.ParseLetStmt_4]; (rule leaf)?; (assumption | (simp; fail)))
     | (rule origin_via [OF invokes.ParseLetStmt_5]; (rule leaf)?; (assumption | (simp; fail)))
     | (rule origin_via [OF invokes.ParseLetStmt_6]; (rule leaf)?; (assumption | (simp; fail))))+)?
    done
qed

lemma origin_stmt:
  "(\<forall>lx w. ParseStmt P n lx = Inl (ParserError w) \<longrightarrow>
        origin P (C_ParseStmt n lx) w)
 \<and> (\<forall>lx w. ParseBlockStmt P n lx = Inl (ParserError w) \<longrightarrow>
        origin P (C_ParseBlockStmt n lx) w)
 \<and> (\<forall>b lx w. ParseBlockStmt_loop P n b lx = Inl (ParserError w) \<longrightarrow>
        origin P (C_ParseBlockStmt_loop n b lx) w)
 \<and> (\<forall>lx w. ParseWhileStmt P n lx = Inl (ParserError w) \<longrightarrow>
        origin P (C_ParseWhileStmt n lx) w)
 \<and> (\<forall>lx w. ParseIfStmt P n lx = Inl (ParserError w) \<longrightarrow>
        origin P (C_ParseIfStmt n lx) w)"
proof (induction n)
  case 0
  show ?case by simp
next
  case (Suc n)
  then have ih:
    "\<And>lx w. ParseStmt P n lx = Inl (ParserError w) \<Longrightarrow>
        origin P (C_ParseStmt n lx) w"
    "\<And>lx w. ParseBlockStmt P n lx = Inl (ParserError w) \<Longrightarrow>
        origin P (C_ParseBlockStmt n lx) w"
    "\<And>b lx w. ParseBlockStmt_loop P n b lx = Inl (ParserError w) \<Longrightarrow>
        origin P (C_ParseBlockStmt_loop n b lx) w"
    "\<And>lx w. ParseWhileStmt P n lx = Inl (ParserError w) \<Longrightarrow>
        origin P (C_ParseWhileStmt n lx) w"
    "\<And>lx w. ParseIfStmt P n lx = Inl (ParserError w) \<Longrightarrow>
        origin P (C_ParseIfStmt n lx) w"
    by simp_all
  note leaf = ih origin_leaf origin_ParseExpr origin_ParseReturnStmt origin_ParseLetStmt
  have 1: "origin P (C_ParseStmt (Suc n) lx) w"
    if "ParseStmt P (Suc n) lx = Inl (ParserError w)" for lx w
    using that
    apply (auto simp: Let_def elim!: bind_InlE split: if_splits)
    apply (((rule origin_via [OF invokes.ParseStmt_1]; (rule leaf)?; (assumption | (simp; fail)))
     | (rule origin_via [OF invokes.ParseStmt_2]; (rule leaf)?; (assumption | (simp; fail)))
     | (rule origin_via [OF invokes.ParseStmt_3]; (rule leaf)?; (assumption | (simp; fail)))
     | (rule origin_via [OF invokes.ParseStmt_4]; (rule leaf)?; (assumption | (simp; fail)))
     | (rule origin_via [OF invokes.ParseStmt_5]; (rule leaf)?; (assumption | (simp; fail)))
     | (rule origin_via [OF invokes.ParseStmt_6]; (rule leaf)?; (assumption | (simp; fail)))
     | (rule origin_via [OF invokes.ParseStmt_7]; (rule leaf)?; (assumption | (simp; fail))))+)?
    done
  have 2: "origin P (C_ParseBlockStmt (Suc n) lx) w"
    if "ParseBlockStmt P (Suc n) lx = Inl (ParserError w)" for lx w
    using that
    apply (auto simp: Let_def elim!: bind_InlE split: if_splits)
    apply (((rule origin_via [OF invokes.ParseBlockStmt_1]; (rule leaf)?; (assumption | (simp; fail)))
     | (rule origin_via [OF invokes.ParseBlockStmt_2]; (rule leaf)?; (assumption | (simp; fail)))
     | (rule origin_via [OF invokes.ParseBlockStmt_3]; (rule leaf)?; (assumption | (simp; fail))))+)?
    done
  have 3: "origin P (C_ParseBlockStmt_loop (Suc n) b lx) w"
    if "ParseBlockStmt_loop P (Suc n) b lx = Inl (ParserError w)" for b lx w
    using that
    apply (auto simp: Let_def elim!: bind_InlE split: if_splits)
    apply (((rule origin_via [OF invokes.ParseBlockStmt_loop_1]; (rule leaf)?; (assumption | (simp; fail)))
     | (rule origin_via [OF invokes.ParseBlockStmt_loop_2]; (rule leaf)?; (assumption | (simp; fail))))+)?
    done
  have 4: "origin P (C_ParseWhileStmt (Suc n) lx) w"
    if "ParseWhileStmt P (Suc n) lx = Inl (ParserError w)" for lx w
    using that
    apply (auto simp: Let_def elim!: bind_InlE split: if_splits)
    apply (((rule origin_via [OF invokes.ParseWhileStmt_1]; (rule leaf)?; (assumption | (simp; fail)))
     | (rule origin_via [OF invokes.ParseWhileStmt_2]; (rule leaf)?; (assumption | (simp; fail)))
     | (rule origin_via [OF invokes.ParseWhileStmt_3]; (rule leaf)?; (assumption | (simp; fail)))
     | (rule origin_via [OF invokes.ParseWhileStmt_4]; (rule leaf)?; (assumption | (simp; fail)))
     | (rule origin_via [OF invokes.ParseWhileStmt_5]; (rule leaf)?; (assumption | (simp; fail))))+)?
    done
  have 5: "origin P (C_ParseIfStmt (Suc n) lx) w"
    if "ParseIfStmt P (Suc n) lx = Inl (ParserError w)" for lx w
    using that
    apply (auto simp: Let_def elim!: bind_InlE split: if_splits)
    apply (((rule origin_via [OF invokes.ParseIfStmt_1]; (rule leaf)?; (assumption | (simp; fail)))
     | (rule origin_via [OF invokes.ParseIfStmt_2]; (rule leaf)?; (assumption | (simp; fail)))
     | (rule origin_via [OF invokes.ParseIfStmt_3]; (rule leaf)?; (assumption | (simp; fail)))
     | (rule origin_via [OF invokes.ParseIfStmt_4]; (rule leaf)?; (assumption | (simp; fail)))
     | (rule origin_via [OF invokes.ParseIfStmt_5]; (rule leaf)?; (assumption | (simp; fail)))
     | (rule origin_via [OF invokes.ParseIfStmt_6]; (rule leaf)?; (assumption | (simp; fail))))+)?
    done
  from 1 2 3 4 5 show ?case by blast
qed

lemmas origin_ParseStmt = origin_stmt [THEN conjunct1, rule_format]

lemmas origin_ParseBlockStmt = origin_stmt [THEN conjunct2, THEN conjunct1, rule_format]

lemma origin_ParseModule_args:
  "ParseModule_args P n a lx = Inl (ParserError w) \<Longrightarrow> origin P (C_ParseModule_args n a lx) w"
proof (induction n arbitrary: a lx)
  case 0
  then show ?case by simp
next
  case (Suc n)
  note leaf = Suc.IH origin_leaf
  from Suc.prems show ?case
    apply (auto elim!: bind_InlE split: if_splits)
    apply (((rule origin_via [OF invokes.ParseModule_args_1]; (rule leaf)?; (assumption | (simp; fail)))
     | (rule origin_via [OF invokes.ParseModule_args_2]; (rule leaf)?; (assumption | (simp; fail)))
     | (rule origin_via [OF invokes.ParseModule_args_3]; (rule leaf)?; (assumption | (simp; fail)))
     | (rule origin_via [OF invokes.ParseModule_args_4]; (rule leaf)?; (assumption | (simp; fail)))
     | (rule origin_via [OF invokes.ParseModule_args_5]; (rule leaf)?; (assumption | (simp; fail))))+)?
    done
qed

lemma origin_ParseModule_loop:
  "ParseModule_loop P n b lx = Inl (ParserError w) \<Longrightarrow> origin P (C_ParseModule_loop n b lx) w"
proof (induction n arbitrary: b lx)
  case 0
  then show ?case by simp
next
  case (Suc n)
  note leaf = Suc.IH origin_leaf origin_ParseStmt origin_ParseBlockStmt origin_ParseModule_args
  from Suc.prems show ?case
    apply (auto simp: Let_def elim!: bind_InlE split: if_splits)
    apply (((rule origin_via [OF invokes.ParseModule_loop_1]; (rule leaf)?; (assumption | (simp; fail)))
     | (rule origin_via [OF invokes.ParseModule_loop_2]; (rule leaf)?; (assumption | (simp; fail)))
     | (rule origin_via [OF invokes.ParseModule_loop_3]; (rule leaf)?; (assumption | (simp; fail)))
     | (rule origin_via [OF invokes.ParseModule_loop_4]; (rule leaf)?; (assumption | (simp; fail)))
     | (rule origin_via [OF invokes.ParseModule_loop_5]; (rule leaf)?; (assumption | (simp; fail)))
     | (rule origin_via [OF invokes.ParseModule_loop_6]; (rule leaf)?; (assumption | (simp; fail)))
     | (rule origin_via [OF invokes.ParseModule_loop_7]; (rule leaf)?; (assumption | (simp; fail)))
     | (rule origin_via [OF invokes.ParseModule_loop_8]; (rule leaf)?; (assumption | (simp; fail)))
     | (rule origin_via [OF invokes.ParseModule_loop_9]; (rule leaf)?; (assumption | (simp; fail)))
     | (rule origin_via [OF invokes.ParseModule_loop_10]; (rule leaf)?; (assumption | (simp; fail)))
     | (rule origin_via [OF invokes.ParseModule_loop_11]; (rule leaf)?; (assumption | (simp; fail)))
     | (rule origin_via [OF invokes.ParseModule_loop_12]; (rule leaf)?; (assumption | (simp; fail)))
     | (rule origin_via [OF invokes.ParseModule_loop_13]; (rule leaf)?; (assumption | (simp; fail)))
     | (rule origin_via [OF invokes.ParseModule_loop_14]; (rule leaf)?; (assumption | (simp; fail)))
     | (rule origin_via [OF invokes.ParseModule_loop_15]; (rule leaf)?; (assumption | (simp; fail))))+)?
    done
qed

lemma origin_ParseModule:
  "ParseModule P n lx = Inl (ParserError w) \<Longrightarrow> origin P (C_ParseModule n lx) w"
  by (rule origin_via [OF invokes.ParseModule_1])
     (simp add: ParseModule_def origin_ParseModule_loop)

lemma ParseTermExpr_mismatch:
  "\<not> is_term (Current lx) \<Longrightarrow>
   ParseTermExpr P lx = Inl (ParserError (FormatMessage (GetLocation (Current lx))
     (''unexpected '' @ showToken P (Current lx) @ '', expecting term'')))"
  by (simp add: ParseTermExpr_def Error_def Let_def is_term_def)

section \<open>Shape of the diagnostics\<close>

text \<open>
  C9. \<^verbatim>\<open>FormatMessage\<close> renders every location and message as
  \<open>[<source-name>:<line>:<column>] <message>\<close>. Whenever \<^verbatim>\<open>ParseModule\<close> ends in a
  parse error, the text of the error has this shape for the offending token: there is a
  \<^verbatim>\<open>Check\<close> or a \<^verbatim>\<open>ParseTermExpr\<close> reached in the course of \<^verbatim>\<open>ParseModule\<close>
  whose current token is of another kind than the expected one, that token is a token of
  the input or its end-of-stream token, and the text is made of the source name, line and
  column of that token and the message \<open>unexpected <token>, expecting <kind>\<close> (or
  \<open>expecting term\<close>). Conversely, every such call reached in the course of
  \<^verbatim>\<open>ParseModule\<close> makes it end in the parse error with exactly this text.
\<close>

theorem parse_error_format:
  "FormatMessage loc msg =
     ''['' @ Name loc @ '':'' @ dec_int (Line loc) @ '':'' @ dec_int (Column loc) @ ''] '' @ msg
   \<and> (ParseModule P n lx = Inl (ParserError w) \<longrightarrow>
        (\<exists>lx' msg'.
           (Current lx' \<in> set (rest lx) \<or> Current lx' = EndToken (eof lx)) \<and>
           ((\<exists>k. (invokes P)\<^sup>*\<^sup>* (C_ParseModule n lx) (C_Check k lx') \<and>
                 GetKind (Current lx') \<noteq> k \<and>
                 msg' = ''unexpected '' @ showToken P (Current lx') @ '', expecting ''
                          @ showKind P k)
            \<or> ((invokes P)\<^sup>*\<^sup>* (C_ParseModule n lx) (C_ParseTermExpr lx') \<and>
                 \<not> is_term (Current lx') \<and>
                 msg' = ''unexpected '' @ showToken P (Current lx') @ '', expecting term'')) \<and>
           w = ''['' @ Name (GetLocation (Current lx')) @ '':''
                 @ dec_int (Line (GetLocation (Current lx'))) @ '':''
                 @ dec_int (Column (GetLocation (Current lx'))) @ ''] '' @ msg'))
   \<and> ((invokes P)\<^sup>*\<^sup>* (C_ParseModule n lx) (C_Check k lx1) \<longrightarrow> GetKind (Current lx1) \<noteq> k \<longrightarrow>
        ParseModule P n lx = Inl (ParserError
          (''['' @ Name (GetLocation (Current lx1)) @ '':''
             @ dec_int (Line (GetLocation (Current lx1))) @ '':''
             @ dec_int (Column (GetLocation (Current lx1))) @ ''] ''
             @ ''unexpected '' @ showToken P (Current lx1) @ '', expecting '' @ showKind P k)))
   \<and> ((invokes P)\<^sup>*\<^sup>* (C_ParseModule n lx) (C_ParseTermExpr lx2) \<longrightarrow>
        \<not> is_term (Current lx2) \<longrightarrow>
        ParseModule P n lx = Inl (ParserError
          (''['' @ Name (GetLocation (Current lx2)) @ '':''
             @ dec_int (Line (GetLocation (Current lx2))) @ '':''
             @ dec_int (Column (GetLocation (Current lx2))) @ ''] ''
             @ ''unexpected '' @ showToken P (Current lx2) @ '', expecting term'')))"
proof (intro conjI impI)
  show "FormatMessage loc msg =
     ''['' @ Name loc @ '':'' @ dec_int (Line loc) @ '':'' @ dec_int (Column loc) @ ''] '' @ msg"
    by (simp add: FormatMessage_def)
next
  assume "ParseModule P n lx = Inl (ParserError w)"
  then have "origin P (C_ParseModule n lx) w"
    by (rule origin_ParseModule)
  then obtain c where inv: "(invokes P)\<^sup>*\<^sup>* (C_ParseModule n lx) c" and rej: "rejects P c w"
    unfolding origin_def by blast
  from invoked_tokens [OF inv] have sub: "call_tokens c \<subseteq> tokens_of lx"
    by simp
  from rej consider k lx' where "c = C_Check k lx'" | lx' where "c = C_ParseTermExpr lx'"
    by (cases c) simp_all
  then show "\<exists>lx' msg'.
           (Current lx' \<in> set (rest lx) \<or> Current lx' = EndToken (eof lx)) \<and>
           ((\<exists>k. (invokes P)\<^sup>*\<^sup>* (C_ParseModule n lx) (C_Check k lx') \<and>
                 GetKind (Current lx') \<noteq> k \<and>
                 msg' = ''unexpected '' @ showToken P (Current lx') @ '', expecting ''
                          @ showKind P k)
            \<or> ((invokes P)\<^sup>*\<^sup>* (C_ParseModule n lx) (C_ParseTermExpr lx') \<and>
                 \<not> is_term (Current lx') \<and>
                 msg' = ''unexpected '' @ showToken P (Current lx') @ '', expecting term'')) \<and>
           w = ''['' @ Name (GetLocation (Current lx')) @ '':''
                 @ dec_int (Line (GetLocation (Current lx'))) @ '':''
                 @ dec_int (Column (GetLocation (Current lx'))) @ ''] '' @ msg'"
  proof cases
    case 1
    with sub have "Current lx' \<in> tokens_of lx"
      using Current_tokens [of lx'] by auto
    then have "Current lx' \<in> set (rest lx) \<or> Current lx' = EndToken (eof lx)"
      by (auto simp: tokens_of_def)
    with 1 inv rej show ?thesis
      by (intro exI [of _ lx']
          exI [of _ "''unexpected '' @ showToken P (Current lx') @ '', expecting '' @ showKind P k"])
         (auto simp: FormatMessage_def)
  next
    case 2
    with sub have "Current lx' \<in> tokens_of lx"
      using Current_tokens [of lx'] by auto
    then have "Current lx' \<in> set (rest lx) \<or> Current lx' = EndToken (eof lx)"
      by (auto simp: tokens_of_def)
    with 2 inv rej show ?thesis
      by (intro exI [of _ lx']
          exI [of _ "''unexpected '' @ showToken P (Current lx') @ '', expecting term''"])
         (auto simp: FormatMessage_def)
  qed
next
  assume "(invokes P)\<^sup>*\<^sup>* (C_ParseModule n lx) (C_Check k lx1)" "GetKind (Current lx1) \<noteq> k"
  then show "ParseModule P n lx = Inl (ParserError
          (''['' @ Name (GetLocation (Current lx1)) @ '':''
             @ dec_int (Line (GetLocation (Current lx1))) @ '':''
             @ dec_int (Column (GetLocation (Current lx1))) @ ''] ''
             @ ''unexpected '' @ showToken P (Current lx1) @ '', expecting '' @ showKind P k))"
    using invoked_propagates [of P "C_ParseModule n lx" "C_Check k lx1"] Check_mismatch [of lx1 k P]
    by (simp add: FormatMessage_def)
next
  assume "(invokes P)\<^sup>*\<^sup>* (C_ParseModule n lx) (C_ParseTermExpr lx2)" "\<not> is_term (Current lx2)"
  then show "ParseModule P n lx = Inl (ParserError
          (''['' @ Name (GetLocation (Current lx2)) @ '':''
             @ dec_int (Line (GetLocation (Current lx2))) @ '':''
             @ dec_int (Column (GetLocation (Current lx2))) @ ''] ''
             @ ''unexpected '' @ showToken P (Current lx2) @ '', expecting term''))"
    using invoked_propagates [of P "C_ParseModule n lx" "C_ParseTermExpr lx2"]
      ParseTermExpr_mismatch [of lx2 P]
    by (simp add: FormatMessage_def)
qed

theorem parse_error_format_witness:
  "ParseModule printers 7 \<lparr>rest = [tok PLUS [] 0 4, tok INT_kind [] 1 6], eof = eof_loc\<rparr> =
     Inl (ParserError ''[t.imp:1:4] unexpected PLUS, expecting term'')
   \<and> (\<exists>lx' msg'.
         (Current lx' \<in> {tok PLUS [] 0 4, tok INT_kind [] 1 6} \<or> Current lx' = EndToken eof_loc) \<and>
         ((\<exists>k. (invokes printers)\<^sup>*\<^sup>*
                 (C_ParseModule 7 \<lparr>rest = [tok PLUS [] 0 4, tok INT_kind [] 1 6], eof = eof_loc\<rparr>)
                 (C_Check k lx') \<and>
               GetKind (Current lx') \<noteq> k \<and>
               msg' = ''unexpected '' @ showToken printers (Current lx') @ '', expecting ''
                        @ showKind printers k)
          \<or> ((invokes printers)\<^sup>*\<^sup>*
                 (C_ParseModule 7 \<lparr>rest = [tok PLUS [] 0 4, tok INT_kind [] 1 6], eof = eof_loc\<rparr>)
                 (C_ParseTermExpr lx') \<and>
               \<not> is_term (Current lx') \<and>
               msg' = ''unexpected '' @ showToken printers (Current lx') @ '', expecting term'')) \<and>
         ''[t.imp:1:4] unexpected PLUS, expecting term'' =
           ''['' @ Name (GetLocation (Current lx')) @ '':''
             @ dec_int (Line (GetLocation (Current lx'))) @ '':''
             @ dec_int (Column (GetLocation (Current lx'))) @ ''] '' @ msg')"
proof -
  let ?lx = "\<lparr>rest = [tok PLUS [] 0 4, tok INT_kind [] 1 6], eof = eof_loc\<rparr>"
  let ?w = "''[t.imp:1:4] unexpected PLUS, expecting term''"
  have k: "GetKind (Current ?lx) \<notin> {END, FUNC}"
    "GetKind (Current ?lx) \<notin> {RETURN, WHILE, IF, LET, LBRACE}" "\<not> is_term (Current ?lx)"
    by (simp_all add: tok_def is_term_def)
  have s1: "invokes printers (C_ParseModule 7 ?lx) (C_ParseModule_loop 7 [] ?lx)"
    by (rule invokes.ParseModule_1)
  have s2: "invokes printers (C_ParseModule_loop 7 [] ?lx) (C_ParseStmt 6 ?lx)"
    using invokes.ParseModule_loop_14 [where lx = ?lx and n = 6 and body = "[]" and P = printers] k
    by (simp add: eval_nat_numeral)
  have s3: "invokes printers (C_ParseStmt 6 ?lx) (C_ParseExpr 5 ?lx)"
    using invokes.ParseStmt_6 [where lx = ?lx and n = 5 and P = printers] k
    by (simp add: eval_nat_numeral)
  have s4: "invokes printers (C_ParseExpr 5 ?lx) (C_ParseEqualityExpr 4 ?lx)"
    using invokes.ParseExpr_1 [where lx = ?lx and n = 4 and P = printers]
    by (simp add: eval_nat_numeral)
  have s5: "invokes printers (C_ParseEqualityExpr 4 ?lx) (C_ParseAddSubExpr 3 ?lx)"
    using invokes.ParseEqualityExpr_1 [where lx = ?lx and n = 3 and P = printers]
    by (simp add: eval_nat_numeral)
  have s6: "invokes printers (C_ParseAddSubExpr 3 ?lx) (C_ParseMulExpr 2 ?lx)"
    using invokes.ParseAddSubExpr_1 [where lx = ?lx and n = 2 and P = printers]
    by (simp add: eval_nat_numeral)
  have s7: "invokes printers (C_ParseMulExpr 2 ?lx) (C_ParseCallExpr 1 ?lx)"
    using invokes.ParseMulExpr_1 [where lx = ?lx and n = 1 and P = printers]
    by (simp add: eval_nat_numeral)
  have s8: "invokes printers (C_ParseCallExpr 1 ?lx) (C_ParseTermExpr ?lx)"
    using invokes.ParseCallExpr_1 [where lx = ?lx and n = 0 and P = printers]
    by (simp add: eval_nat_numeral)
  note r = invoked_step
  have inv: "(invokes printers)\<^sup>*\<^sup>* (C_ParseModule 7 ?lx) (C_ParseTermExpr ?lx)"
    by (rule r [OF r [OF r [OF r [OF r [OF r [OF r [OF r [OF invoked_refl s1] s2] s3] s4] s5] s6]
          s7] s8])
  have e: "ParseModule printers 7 ?lx = Inl (ParserError ?w)"
    using parse_error_format [where P = printers and n = 7 and lx = ?lx and ?lx2.0 = ?lx] inv k(3)
    by (simp add: printers_def tok_def dec_int_digits)
  with parse_error_format [where P = printers and n = 7 and lx = ?lx and w = ?w]
  have "\<exists>lx' msg'.
         (Current lx' \<in> set (rest ?lx) \<or> Current lx' = EndToken (eof ?lx)) \<and>
         ((\<exists>k. (invokes printers)\<^sup>*\<^sup>* (C_ParseModule 7 ?lx) (C_Check k lx') \<and>
               GetKind (Current lx') \<noteq> k \<and>
               msg' = ''unexpected '' @ showToken printers (Current lx') @ '', expecting ''
                        @ showKind printers k)
          \<or> ((invokes printers)\<^sup>*\<^sup>* (C_ParseModule 7 ?lx) (C_ParseTermExpr lx') \<and>
               \<not> is_term (Current lx') \<and>
               msg' = ''unexpected '' @ showToken printers (Current lx') @ '', expecting term'')) \<and>
         ?w = ''['' @ Name (GetLocation (Current lx')) @ '':''
             @ dec_int (Line (GetLocation (Current lx'))) @ '':''
             @ dec_int (Column (GetLocation (Current lx'))) @ ''] '' @ msg'"
    by blast
  with e show ?thesis
    by simp
qed

section \<open>The let statement\<close>

lemma ParseLetStmt_never_returns: "ParseLetStmt P n lx \<noteq> Inr r"
  by (simp add: ParseLetStmt_def Check_def Error_def Let_def lift_def GetIdent_def)

lemma let_colon_is_rejected:
  "Expect printers EQUAL
     \<lparr>rest = [tok IDENT ''x'' 0 5, tok COLON [] 0 6, tok IDENT ''int'' 0 8,
              tok EQUAL [] 0 12, tok INT_kind [] 1 14, tok SEMI [] 0 15],
      eof = eof_loc\<rparr> = Inl (ParserError ''[t.imp:1:6] unexpected COLON, expecting EQUAL'')"
  by (simp add: Expect_def Check_def Error_def Let_def FormatMessage_def printers_def tok_def
      dec_int_digits)

text \<open>
  C1. On the tokens of the well-formed statement \<open>let x : int = 1;\<close>
  \<^verbatim>\<open>ParseLetStmt\<close> returns no \<open>LetStmt\<close>: it reads the variable name from the
  \<open>LET\<close> keyword, which carries no identifier, and the call ends there; so does
  \<^verbatim>\<open>ParseStmt\<close>, which dispatches to it.
\<close>

theorem ParseLetStmt_rejects_let:
  "\<forall>n. ParseLetStmt printers n
         \<lparr>rest = [tok LET [] 0 1, tok IDENT ''x'' 0 5, tok COLON [] 0 6, tok IDENT ''int'' 0 8,
                  tok EQUAL [] 0 12, tok INT_kind [] 1 14, tok SEMI [] 0 15],
          eof = eof_loc\<rparr> = Inl PreconditionViolation
     \<and> ParseStmt printers (Suc n)
         \<lparr>rest = [tok LET [] 0 1, tok IDENT ''x'' 0 5, tok COLON [] 0 6, tok IDENT ''int'' 0 8,
                  tok EQUAL [] 0 12, tok INT_kind [] 1 14, tok SEMI [] 0 15],
          eof = eof_loc\<rparr> = Inl PreconditionViolation"
  by (simp add: ParseLetStmt_def Check_def Let_def lift_def GetIdent_def tok_def)

section \<open>An unfinished declaration\<close>

lemma func_open_paren_next_check:
  "Expect printers COLON \<lparr>rest = [], eof = eof_loc\<rparr> =
     Inl (ParserError ''[t.imp:2:1] unexpected END, expecting COLON'')"
  by (simp add: Expect_def Check_def Error_def Let_def FormatMessage_def printers_def
      EndToken_def eof_loc_def dec_int_digits)

text \<open>
  C3. On the tokens of \<open>func f(\<close> \<^verbatim>\<open>ParseModule\<close> raises no parse error: the
  parameter loop finds the end-of-stream token where a parameter or the closing
  parenthesis should be, and reads a parameter name from it without a check of its
  kind.
\<close>

theorem ParseModule_func_open_paren:
  "\<forall>n. ParseModule printers (Suc (Suc n))
         \<lparr>rest = [tok FUNC [] 0 1, tok IDENT ''f'' 0 6, tok LPAREN [] 0 7], eof = eof_loc\<rparr> =
       Inl PreconditionViolation"
  by (simp add: ParseModule_def Expect_def Check_def Let_def lift_def GetIdent_def tok_def
      EndToken_def)

section \<open>Typed reads from the program\<close>

lemma Read_in_bounds:
  assumes "unat pc + unat sizeof_T \<le> length (code prog)" "length (code prog) < 2 ^ 64"
  shows "Read prog sizeof_T pc =
           Inr (take (unat sizeof_T) (drop (unat pc) (code prog)), pc + sizeof_T)"
    and "length (take (unat sizeof_T) (drop (unat pc) (code prog))) = unat sizeof_T"
    and "unat (pc + sizeof_T) = unat pc + unat sizeof_T"
proof -
  have lt: "unat pc + unat sizeof_T < 2 ^ 64" using assms by simp
  then show u: "unat (pc + sizeof_T) = unat pc + unat sizeof_T"
    by (simp add: unat_word_ariths)
  have sz: "unat (code_size prog) = length (code prog)"
    using assms(2) by (simp add: code_size_def unat_of_nat)
  have "pc + sizeof_T \<le> code_size prog"
    using assms(1) u sz by (simp add: word_le_nat_alt)
  then show "Read prog sizeof_T pc =
      Inr (take (unat sizeof_T) (drop (unat pc) (code prog)), pc + sizeof_T)"
    using assms(1) by (simp add: Read_def memcpy_def)
  show "length (take (unat sizeof_T) (drop (unat pc) (code prog))) = unat sizeof_T"
    using assms(1) by simp
qed

lemma Read_assert_fails:
  assumes "length (code prog) < unat pc + unat sizeof_T" "unat pc + unat sizeof_T < 2 ^ 64"
    and "length (code prog) < 2 ^ 64"
  shows "Read prog sizeof_T pc = Inl AssertionFailed"
proof -
  have u: "unat (pc + sizeof_T) = unat pc + unat sizeof_T"
    using assms(2) by (simp add: unat_word_ariths)
  have sz: "unat (code_size prog) = length (code prog)"
    using assms(3) by (simp add: code_size_def unat_of_nat)
  have "\<not> pc + sizeof_T \<le> code_size prog"
    using assms(1) u sz by (simp add: word_le_nat_alt)
  then show ?thesis by (simp add: Read_def)
qed

text \<open>
  C2. A read of eight bytes at the offset \<open>2\<^sup>6\<^sup>4 - 1\<close> from a program of eight bytes
  lies outside the buffer, and yet the assertion passes: the sum \<^verbatim>\<open>pc + sizeof(T)\<close>
  wraps around to 7. The read does not fail; \<^verbatim>\<open>memcpy\<close> reads outside the vector.
\<close>

theorem Read_wraps_past_assertion:
  "Read \<lparr>code = [0, 1, 2, 3, 4, 5, 6, 7]\<rparr> 8 18446744073709551615 = Inl UndefinedBehaviour
   \<and> (18446744073709551615 :: size_t) + 8 = 7"
  by (simp add: Read_def memcpy_def code_size_def)

section \<open>Stack effect of \<^verbatim>\<open>print_int\<close>\<close>

lemma dec_nat_42: "dec_nat 42 = ''42''"
  by (simp add: dec_nat.simps)

text \<open>
  C10. When the top of the operand stack is the integer \<open>v\<close>, \<^verbatim>\<open>PrintInt\<close> succeeds,
  the stack afterwards is the old one with one more \<open>v\<close> on top, so it has grown by
  exactly one element and its two topmost elements are both \<open>v\<close>, and the decimal form
  of \<open>v\<close> as a signed number has been appended to standard output.
\<close>

theorem print_int_stack_effect:
  assumes "stack interp = st @ [IntVal v]"
  shows "\<exists>interp'. PrintInt interp = Inr interp'
           \<and> stack interp' = st @ [IntVal v, IntVal v]
           \<and> length (stack interp') = length (stack interp) + 1
           \<and> stdout interp' = stdout interp @ dec_int (sint v)"
  using assms by (simp add: PrintInt_def PeekInt_def Push_int64_def)

theorem print_int_stack_effect_witness:
  "PrintInt \<lparr>stack = [IntVal 3, IntVal (- 42)], stdout = ''x''\<rparr> =
     Inr \<lparr>stack = [IntVal 3, IntVal (- 42), IntVal (- 42)], stdout = ''x-42''\<rparr>"
  using print_int_stack_effect
    [of "\<lparr>stack = [IntVal 3, IntVal (- 42)], stdout = ''x''\<rparr>" "[IntVal 3]" "- 42"]
  by (auto simp: dec_int_def dec_nat_42)

end
